theory Spec2Isabelle
  imports Main "HOL-Library.AList"
begin

section \<open>Data model of lib/platforms/channel.js\<close>

text \<open>
  Identifiers are the store's object ids; they are compared by value
  (\<^verbatim>\<open>identityItem.toString() === identity.id\<close>) and every one of them is a truthy
  JavaScript value. Channel names are strings.
\<close>

type_synonym oid = nat

text \<open>
  A plain channel object, as it is passed to the model's constructor and to
  \<^verbatim>\<open>set\<close>: the two fields the module reads, and every other key of the object in
  insertion order.
\<close>

record channel_obj =
  name :: string
  identityRef :: "oid list"
  extra :: "(string \<times> string) list"

text \<open>A stored Channel document: the object's fields and the document id.\<close>

record channel = channel_obj +
  cid :: oid

text \<open>The two fields of an Identity that the module reads.\<close>

record identity =
  iid :: oid
  channels :: "string list"

text \<open>
  The \<^verbatim>\<open>channelData\<close> / \<^verbatim>\<open>changes\<close> argument: an object in which each of the keys
  \<^verbatim>\<open>name\<close> and \<^verbatim>\<open>identityRef\<close> is present or omitted, plus any other keys.
\<close>

record patch =
  p_name :: "string option"
  p_identityRef :: "oid list option"
  p_extra :: "(string \<times> string) list"

text \<open>
  The errors a callback can receive. The first four are built by the module from
  \<^verbatim>\<open>util/errors\<close> with a message only. \<open>StoreError\<close> is an error object of the
  Channel model handed on as it was received, \<open>CollaboratorError\<close> an error object
  of the identity platform handed on as it was received.
\<close>

datatype error =
    BadRequestError string
  | NotFoundError string
  | ConflictError string
  | InternalError string
  | StoreError string
  | CollaboratorError string

text \<open>
  The first argument of \<^verbatim>\<open>removeValuesFromField\<close>: absent (any falsy value), one id,
  or an array of ids (an array is truthy even when empty).
\<close>

datatype id_arg = NoIds | OneId oid | ManyIds "oid list"

text \<open>The calls the module issues to the Channel model and to the identity platform.\<close>

datatype call =
    Call_Channel_findById oid
  | Call_Channel_findOne "string option"
  | Call_Channel_save channel
  | Call_Channel_findOneAndRemove oid
  | Call_Channel_update "oid list option" string oid
  | Call_identities_get oid
  | Call_identities_update string string
  | Call_identities_removeValuesFromField id_arg string string
  | Call_identities_findIdentitiesByFieldValue string "oid list"

text \<open>
  The surroundings of one operation: which of the issued calls fail and with which
  error object, the id the model's constructor gives a new document, and which of the
  two callbacks of \<^verbatim>\<open>async.parallel\<close> arrives first.
\<close>

record env =
  fault :: "call \<Rightarrow> string option"
  new_id :: oid
  channel_pull_first :: bool

text \<open>The two collections, and the calls issued so far in order.\<close>

record state =
  channel_store :: "channel list"
  identity_store :: "identity list"
  calls :: "call list"

text \<open>The raw result of a bulk update: documents matched and documents changed.\<close>

record update_result =
  n :: nat
  nModified :: nat

section \<open>The Channel model\<close>

definition issue :: "call \<Rightarrow> state \<Rightarrow> state" where
  "issue q s = s\<lparr>calls := calls s @ [q]\<rparr>"

definition findById :: "oid \<Rightarrow> channel list \<Rightarrow> channel option" where
  "findById i cs = find (\<lambda>c. cid c = i) cs"

text \<open>
  \<^verbatim>\<open>findOne({name: v})\<close>: the first document whose name equals the value. Every stored
  document has a string name, so an omitted (undefined) value equals none of them.
\<close>

definition findOne_name :: "string option \<Rightarrow> channel list \<Rightarrow> channel option" where
  "findOne_name v cs = find (\<lambda>c. Some (name c) = v) cs"

text \<open>Saving a fetched document writes it over the stored document with its id.\<close>

fun replace_doc :: "channel \<Rightarrow> channel list \<Rightarrow> channel list" where
  "replace_doc d [] = []"
| "replace_doc d (c # cs) = (if cid c = cid d then d # cs else c # replace_doc d cs)"

definition new_Channel :: "oid \<Rightarrow> channel_obj \<Rightarrow> channel" where
  "new_Channel i obj =
     \<lparr>name = name obj, identityRef = identityRef obj, extra = extra obj, cid = i\<rparr>"

definition toObject :: "channel \<Rightarrow> channel_obj" where
  "toObject c = \<lparr>name = name c, identityRef = identityRef c, extra = extra c\<rparr>"

definition set_fields :: "channel \<Rightarrow> channel_obj \<Rightarrow> channel" where
  "set_fields c obj =
     c\<lparr>name := name obj, identityRef := identityRef obj, extra := extra obj\<rparr>"

text \<open>
  \<^verbatim>\<open>$pull\<close> removes every element equal to the value from the named array field. The
  Channel schema has the single array field \<^verbatim>\<open>identityRef\<close>; a pull on any other path
  leaves the document as it is.
\<close>

definition pull_channel :: "string \<Rightarrow> oid \<Rightarrow> channel \<Rightarrow> channel" where
  "pull_channel field v c =
     (if field = ''identityRef'' then c\<lparr>identityRef := filter (\<lambda>x. x \<noteq> v) (identityRef c)\<rparr>
      else c)"

text \<open>The filter of the bulk update: empty, or \<^verbatim>\<open>{_id: {$in: ids}}\<close>.\<close>

definition matches :: "oid list option \<Rightarrow> oid \<Rightarrow> bool" where
  "matches queryOptions i = (case queryOptions of None \<Rightarrow> True | Some ids \<Rightarrow> i \<in> set ids)"

text \<open>
  The filter that an id argument stands for: none when the argument is absent, the one id
  or the ids of the array otherwise.
\<close>

definition ids_filter :: "id_arg \<Rightarrow> oid list option" where
  "ids_filter a = (case a of NoIds \<Rightarrow> None | OneId i \<Rightarrow> Some [i] | ManyIds xs \<Rightarrow> Some xs)"

section \<open>The identity platform\<close>

text \<open>
  Modelled from the spec: \<^verbatim>\<open>platforms/identity\<close> is not part of the sources at hand.
  \<^verbatim>\<open>get(id) -> Identity | not-found\<close>.
\<close>

definition identities_get :: "env \<Rightarrow> oid \<Rightarrow> state \<Rightarrow> (string + identity option) \<times> state" where
  "identities_get e i s =
     (let q = Call_identities_get i; s1 = issue q s in
      case fault e q of
        Some err \<Rightarrow> (Inl err, s1)
      | None \<Rightarrow> (Inr (find (\<lambda>x. iid x = i) (identity_store s1)), s1))"

text \<open>
  Modelled from the spec: the targeted replacement of one array element: the first
  element equal to the old value becomes the new value, the rest of the list stays.
\<close>

fun set_positional :: "string \<Rightarrow> string \<Rightarrow> string list \<Rightarrow> string list" where
  "set_positional old new [] = []"
| "set_positional old new (x # xs) =
     (if x = old then new # xs else x # set_positional old new xs)"

text \<open>
  Modelled from the spec: \<^verbatim>\<open>update(filter, patch, options)\<close> of the identity platform,
  for the filter \<^verbatim>\<open>{channels: old}\<close>, the patch \<^verbatim>\<open>{$set: {'channels.$': new}}\<close> and
  \<^verbatim>\<open>{multi: true}\<close>: in every Identity whose \<^verbatim>\<open>channels\<close> list contains the old name,
  that one element is replaced by the new name.
\<close>

definition identities_update :: "env \<Rightarrow> string \<Rightarrow> string \<Rightarrow> state \<Rightarrow> (string + unit) \<times> state" where
  "identities_update e old new s =
     (let q = Call_identities_update old new; s1 = issue q s in
      case fault e q of
        Some err \<Rightarrow> (Inl err, s1)
      | None \<Rightarrow>
          (Inr (),
           s1\<lparr>identity_store :=
                 map (\<lambda>i. if old \<in> set (channels i)
                           then i\<lparr>channels := set_positional old new (channels i)\<rparr> else i)
                     (identity_store s1)\<rparr>))"

text \<open>
  Modelled from the spec: a pull on an Identity removes every element equal to the value
  from its \<^verbatim>\<open>channels\<close> list, the one list of an Identity the module knows.
\<close>

definition pull_identity :: "string \<Rightarrow> string \<Rightarrow> identity \<Rightarrow> identity" where
  "pull_identity field v i =
     (if field = ''channels'' then i\<lparr>channels := filter (\<lambda>x. x \<noteq> v) (channels i)\<rparr> else i)"

text \<open>
  Modelled from the spec: \<^verbatim>\<open>removeValuesFromField(ids, field, values)\<close> of the identity
  platform pulls the value out of the named list of every Identity the ids name.
\<close>

definition identities_removeValuesFromField ::
  "env \<Rightarrow> id_arg \<Rightarrow> string \<Rightarrow> string \<Rightarrow> state \<Rightarrow> (string + unit) \<times> state" where
  "identities_removeValuesFromField e ids field v s =
     (let q = Call_identities_removeValuesFromField ids field v; s1 = issue q s in
      case fault e q of
        Some err \<Rightarrow> (Inl err, s1)
      | None \<Rightarrow>
          (Inr (),
           s1\<lparr>identity_store :=
                 map (\<lambda>i. if matches (ids_filter ids) (iid i) then pull_identity field v i else i)
                     (identity_store s1)\<rparr>))"

text \<open>
  Modelled from the spec: \<^verbatim>\<open>findByFieldValue(field, values) -> sequence<Identity>\<close>,
  called on the field \<^verbatim>\<open>_id\<close>: the Identities whose id is one of the values.
\<close>

definition identities_findIdentitiesByFieldValue ::
  "env \<Rightarrow> string \<Rightarrow> oid list \<Rightarrow> state \<Rightarrow> (string + identity list) \<times> state" where
  "identities_findIdentitiesByFieldValue e field vs s =
     (let q = Call_identities_findIdentitiesByFieldValue field vs; s1 = issue q s in
      case fault e q of
        Some err \<Rightarrow> (Inl err, s1)
      | None \<Rightarrow> (Inr (filter (\<lambda>i. iid i \<in> set vs) (identity_store s1)), s1))"

section \<open>The operations of lib/platforms/channel.js\<close>

definition getChannel :: "env \<Rightarrow> oid \<Rightarrow> state \<Rightarrow> (string + channel option) \<times> state" where
  "getChannel e i s =
     (let q = Call_Channel_findById i; s1 = issue q s in
      case fault e q of
        Some err \<Rightarrow> (Inl err, s1)
      | None \<Rightarrow> (Inr (findById i (channel_store s1)), s1))"

text \<open>\<^verbatim>\<open>_.extend({}, channelToProcess, changes)\<close>: the keys of the changes win.\<close>

definition extend_obj :: "channel_obj \<Rightarrow> patch \<Rightarrow> channel_obj" where
  "extend_obj base changes =
     \<lparr>name = (case p_name changes of None \<Rightarrow> name base | Some v \<Rightarrow> v),
      identityRef = (case p_identityRef changes of None \<Rightarrow> identityRef base | Some v \<Rightarrow> v),
      extra = fold (\<lambda>(k, v). AList.update k v) (p_extra changes) (extra base)\<rparr>"

definition preProcessChannel :: "channel_obj option \<Rightarrow> patch \<Rightarrow> channel_obj" where
  "preProcessChannel channelToProcess changes =
     (let base = (case channelToProcess of
                    None \<Rightarrow> \<lparr>name = '''', identityRef = [], extra = []\<rparr>
                  | Some c \<Rightarrow> c)
      in extend_obj base changes)"

text \<open>
  A document that was found is never an empty object, so \<^verbatim>\<open>results && !_.isEmpty(results)\<close>
  holds exactly when the read found one.
\<close>

definition createChannel :: "env \<Rightarrow> patch \<Rightarrow> state \<Rightarrow> (error + channel) \<times> state" where
  "createChannel e channelData s =
     (let q = Call_Channel_findOne (p_name channelData); s1 = issue q s in
      case fault e q of
        Some err \<Rightarrow> (Inl (StoreError err), s1)
      | None \<Rightarrow>
          (case findOne_name (p_name channelData) (channel_store s1) of
             Some results \<Rightarrow>
               (Inl (ConflictError ''There already exists a channel with the provided name''), s1)
           | None \<Rightarrow>
               (let formattedChannel = preProcessChannel None channelData;
                    channel = new_Channel (new_id e) formattedChannel;
                    sv = Call_Channel_save channel;
                    s2 = issue sv s1
                in case fault e sv of
                     Some err \<Rightarrow> (Inl (StoreError err), s2)
                   | None \<Rightarrow>
                       (Inr channel, s2\<lparr>channel_store := channel_store s2 @ [channel]\<rparr>))))"

definition deleteChannel :: "env \<Rightarrow> oid \<Rightarrow> state \<Rightarrow> (error + unit) \<times> state" where
  "deleteChannel e channelId s =
     (let q = Call_Channel_findOneAndRemove channelId; s1 = issue q s in
      case fault e q of
        Some err \<Rightarrow> (Inl (StoreError err), s1)
      | None \<Rightarrow>
          (case findById channelId (channel_store s1) of
             None \<Rightarrow> (Inl (NotFoundError ''Requested channel not found in database''), s1)
           | Some deletedChannel \<Rightarrow>
               (let s2 = s1\<lparr>channel_store := remove1 deletedChannel (channel_store s1)\<rparr>;
                    relatedIdentities = identityRef deletedChannel
                in if relatedIdentities = [] then (Inr (), s2)
                   else (case identities_removeValuesFromField e
                                 (ManyIds (identityRef deletedChannel)) ''channels''
                                 (name deletedChannel) s2 of
                           (Inl err, s3) \<Rightarrow>
                             (Inl (InternalError ''Could not delete the provided Channel object''),
                              s3)
                         | (Inr u, s3) \<Rightarrow> (Inr (), s3)))))"

definition updateChannel :: "env \<Rightarrow> oid \<Rightarrow> patch \<Rightarrow> state \<Rightarrow> (error + unit) \<times> state" where
  "updateChannel e channelId changes s =
     (case getChannel e channelId s of
        (Inl err, s1) \<Rightarrow> (Inl (StoreError err), s1)
      | (Inr None, s1) \<Rightarrow>
          (Inl (NotFoundError ''Requested Channel object not found in database''), s1)
      | (Inr (Some foundChannel), s1) \<Rightarrow>
          (let oldChannel = toObject foundChannel;
               formattedChannel = preProcessChannel (Some (toObject foundChannel)) changes;
               updatedChannel = set_fields foundChannel formattedChannel;
               sv = Call_Channel_save updatedChannel;
               s2 = issue sv s1
           in case fault e sv of
                Some err \<Rightarrow> (Inl (StoreError err), s2)
              | None \<Rightarrow>
                  (let s3 = s2\<lparr>channel_store := replace_doc updatedChannel (channel_store s2)\<rparr>
                   in case identities_update e (name oldChannel) (name updatedChannel) s3 of
                        (Inl err, s4) \<Rightarrow> (Inl (CollaboratorError err), s4)
                      | (Inr u, s4) \<Rightarrow> (Inr (), s4))))"

definition retrieveIdentityListForChannel ::
  "env \<Rightarrow> (identity \<Rightarrow> 'f) \<Rightarrow> oid option \<Rightarrow> state \<Rightarrow> (error + 'f list) \<times> state" where
  "retrieveIdentityListForChannel e formatIdentity channelId s =
     (case channelId of
        None \<Rightarrow> (Inl (BadRequestError ''Missing channel id parameter''), s)
      | Some i \<Rightarrow>
          (case getChannel e i s of
             (Inl err, s1) \<Rightarrow> (Inl (StoreError err), s1)
           | (Inr None, s1) \<Rightarrow>
               (Inl (BadRequestError ''Requested Channel object not found in database''), s1)
           | (Inr (Some foundChannel), s1) \<Rightarrow>
               (if identityRef foundChannel = [] then (Inr [], s1)
                else (case identities_findIdentitiesByFieldValue e ''_id''
                              (identityRef foundChannel) s1 of
                        (Inl err, s2) \<Rightarrow> (Inl (CollaboratorError err), s2)
                      | (Inr foundIdentities, s2) \<Rightarrow>
                          (Inr (map formatIdentity foundIdentities), s2)))))"

definition removeValuesFromField ::
  "env \<Rightarrow> id_arg \<Rightarrow> string \<Rightarrow> oid \<Rightarrow> state \<Rightarrow> (error + update_result) \<times> state" where
  "removeValuesFromField e channelList field valuesToRemove s =
     (let queryOptions = (case channelList of
                            NoIds \<Rightarrow> None
                          | OneId i \<Rightarrow> Some [i]
                          | ManyIds xs \<Rightarrow> Some xs);
          q = Call_Channel_update queryOptions field valuesToRemove;
          s1 = issue q s
      in case fault e q of
           Some err \<Rightarrow> (Inl (InternalError ''Could not delete data from Channel object''), s1)
         | None \<Rightarrow>
             (let hit = filter (\<lambda>c. matches queryOptions (cid c)) (channel_store s1);
                  result = \<lparr>n = length hit,
                            nModified = length (filter (\<lambda>c. pull_channel field valuesToRemove c \<noteq> c) hit)\<rparr>
              in (Inr result,
                  s1\<lparr>channel_store :=
                        map (\<lambda>c. if matches queryOptions (cid c)
                                  then pull_channel field valuesToRemove c else c)
                            (channel_store s1)\<rparr>)))"

text \<open>
  \<^verbatim>\<open>async.parallel\<close> over two tasks: both are started; the final callback gets the
  first error to arrive, or the results when both succeed.
\<close>

definition parallel_outcome ::
  "bool \<Rightarrow> error + update_result \<Rightarrow> string + unit \<Rightarrow> error + update_result" where
  "parallel_outcome first_wins r1 r2 =
     (case r1 of
        Inr a \<Rightarrow> (case r2 of Inr b \<Rightarrow> Inr a | Inl e2 \<Rightarrow> Inl (CollaboratorError e2))
      | Inl e1 \<Rightarrow> (case r2 of
                    Inr b \<Rightarrow> Inl e1
                  | Inl e2 \<Rightarrow> (if first_wins then Inl e1 else Inl (CollaboratorError e2))))"

text \<open>
  The four stages of the waterfall. \<^verbatim>\<open>_.isEmpty\<close> of what a read returned holds exactly when
  nothing was found. The success value is the result of the Channel-side pull; the
  identity platform's pull returns nothing.
\<close>

definition deleteIdentityFromChannel ::
  "env \<Rightarrow> oid \<Rightarrow> oid \<Rightarrow> state \<Rightarrow> (error + update_result) \<times> state" where
  "deleteIdentityFromChannel e channelId identityId s =
     (case getChannel e channelId s of
        (Inl err, s1) \<Rightarrow> (Inl (BadRequestError ''Could not fetch requested Channel object''), s1)
      | (Inr None, s1) \<Rightarrow>
          (Inl (BadRequestError ''Requested Channel object not found in database''), s1)
      | (Inr (Some channel), s1) \<Rightarrow>
          (case identities_get e identityId s1 of
             (Inl err, s2) \<Rightarrow>
               (Inl (InternalError ''Could not fetch requested Identity object''), s2)
           | (Inr None, s2) \<Rightarrow>
               (Inl (BadRequestError ''Requested Identity object not found in database''), s2)
           | (Inr (Some identity), s2) \<Rightarrow>
               (let identityHasChannel = list_ex (\<lambda>channelItem. channelItem = name channel)
                                                 (channels identity);
                    channelHasIdentity = list_ex (\<lambda>identityItem. identityItem = iid identity)
                                                 (identityRef channel)
                in if \<not> identityHasChannel \<or> \<not> channelHasIdentity
                   then (Inl (ConflictError
                           ''No relationship exist between the provided Channel and Identity objects''),
                         s2)
                   else (case removeValuesFromField e (OneId channelId) ''identityRef''
                                 identityId s2 of
                           (r1, s3) \<Rightarrow>
                             (case identities_removeValuesFromField e (OneId identityId)
                                     ''channels'' (name channel) s3 of
                                (r2, s4) \<Rightarrow>
                                  (parallel_outcome (channel_pull_first e) r1 r2, s4))))))"

section \<open>Sequences of operations and the consistency of the two collections\<close>

text \<open>
  The bidirectional invariant on one Channel and one Identity, and on every pair of the
  two collections.
\<close>

definition pair_ok :: "channel \<Rightarrow> identity \<Rightarrow> bool" where
  "pair_ok c x = (iid x \<in> set (identityRef c) \<longleftrightarrow> name c \<in> set (channels x))"

definition bidirectional :: "state \<Rightarrow> bool" where
  "bidirectional s =
     list_all (\<lambda>c. list_all (\<lambda>x. pair_ok c x) (identity_store s)) (channel_store s)"

text \<open>
  What the data model says of the collections besides the invariant: Channel names and
  Channel ids are unique, every name an Identity lists is the name of a stored Channel,
  and no Identity lists a name twice.
\<close>

definition names_resolve :: "state \<Rightarrow> bool" where
  "names_resolve s =
     list_all (\<lambda>x. list_all (\<lambda>m. m \<in> set (map name (channel_store s))) (channels x))
       (identity_store s)"

definition consistent :: "state \<Rightarrow> bool" where
  "consistent s =
     (bidirectional s \<and>
      distinct (map name (channel_store s)) \<and>
      distinct (map cid (channel_store s)) \<and>
      names_resolve s \<and>
      list_all (\<lambda>x. distinct (channels x)) (identity_store s))"

text \<open>The four public operations that write, and whether a run of one succeeded.\<close>

datatype operation =
    CreateChannel patch
  | UpdateChannel oid patch
  | DeleteChannel oid
  | DeleteIdentityFromChannel oid oid

definition succeeded :: "'e + 'a \<Rightarrow> bool" where
  "succeeded r = (case r of Inl err \<Rightarrow> False | Inr v \<Rightarrow> True)"

fun run_op :: "env \<Rightarrow> operation \<Rightarrow> state \<Rightarrow> bool \<times> state" where
  "run_op e (CreateChannel d) s = (case createChannel e d s of (r, s') \<Rightarrow> (succeeded r, s'))"
| "run_op e (UpdateChannel i p) s = (case updateChannel e i p s of (r, s') \<Rightarrow> (succeeded r, s'))"
| "run_op e (DeleteChannel i) s = (case deleteChannel e i s of (r, s') \<Rightarrow> (succeeded r, s'))"
| "run_op e (DeleteIdentityFromChannel i j) s =
     (case deleteIdentityFromChannel e i j s of (r, s') \<Rightarrow> (succeeded r, s'))"

text \<open>
  A sequence of operations, each in its own surroundings: the states after each
  operation when all of them succeed, and nothing as soon as one fails.
\<close>

fun run_ops :: "(env \<times> operation) list \<Rightarrow> state \<Rightarrow> state list option" where
  "run_ops [] s = Some []"
| "run_ops ((e, a) # rest) s =
     (case run_op e a s of
        (False, s') \<Rightarrow> None
      | (True, s') \<Rightarrow> map_option (\<lambda>ss. s' # ss) (run_ops rest s'))"

text \<open>
  The operations that leave the relationship to the module: a create whose data supplies
  no Identity references, gets a fresh document id and, when it omits the name, meets no
  stored Channel with the empty name; an update whose patch supplies no \<^verbatim>\<open>identityRef\<close>
  and whose new name is not the name of another stored Channel.
\<close>

fun admissible :: "env \<Rightarrow> operation \<Rightarrow> state \<Rightarrow> bool" where
  "admissible e (CreateChannel d) s =
     ((p_identityRef d = None \<or> p_identityRef d = Some []) \<and>
      new_id e \<notin> set (map cid (channel_store s)) \<and>
      (p_name d = None \<longrightarrow> '''' \<notin> set (map name (channel_store s))))"
| "admissible e (UpdateChannel i p) s =
     (p_identityRef p = None \<and>
      (case p_name p of
         None \<Rightarrow> True
       | Some z \<Rightarrow> list_all (\<lambda>c. name c = z \<longrightarrow> cid c = i) (channel_store s)))"
| "admissible e (DeleteChannel i) s = True"
| "admissible e (DeleteIdentityFromChannel i j) s = True"

fun admissible_run :: "(env \<times> operation) list \<Rightarrow> state \<Rightarrow> bool" where
  "admissible_run [] s = True"
| "admissible_run ((e, a) # rest) s =
     (admissible e a s \<and> admissible_run rest (snd (run_op e a s)))"

section \<open>A store, and surroundings with and without failures\<close>

definition ex_state :: state where
  "ex_state =
     \<lparr>channel_store =
        [\<lparr>name = ''a'', identityRef = [7, 8], extra = [], cid = 1\<rparr>,
         \<lparr>name = ''b'', identityRef = [7], extra = [], cid = 2\<rparr>,
         \<lparr>name = ''e'', identityRef = [], extra = [], cid = 4\<rparr>],
      identity_store =
        [\<lparr>iid = 7, channels = [''a'', ''b'']\<rparr>, \<lparr>iid = 8, channels = [''a'']\<rparr>],
      calls = []\<rparr>"

definition ok_env :: env where
  "ok_env = \<lparr>fault = (\<lambda>q. None), new_id = 3, channel_pull_first = True\<rparr>"

definition failing :: "call \<Rightarrow> env" where
  "failing q = \<lparr>fault = (\<lambda>c. if c = q then Some ''E11000'' else None), new_id = 3,
                channel_pull_first = True\<rparr>"

definition ex_ops :: "(env \<times> operation) list" where
  "ex_ops =
     [(ok_env, CreateChannel \<lparr>p_name = Some ''c'', p_identityRef = None, p_extra = []\<rparr>),
      (ok_env, UpdateChannel 1 \<lparr>p_name = Some ''z'', p_identityRef = None, p_extra = []\<rparr>),
      (ok_env, DeleteIdentityFromChannel 2 7),
      (ok_env, DeleteChannel 1)]"

section \<open>The field-pull helper\<close>

text \<open>
  C10. When the ids argument of \<^verbatim>\<open>removeValuesFromField\<close> is absent or falsy, the bulk
  pull is issued with the empty filter: the call that reaches the Channel model carries
  no id condition, and when it does not fail the value is pulled out of the named array
  field of every Channel document of the store, so that afterwards no document's
  \<^verbatim>\<open>identityRef\<close> holds the value.
\<close>

theorem removeValuesFromField_absent_ids:
  "removeValuesFromField e NoIds field v s = (r, s') \<Longrightarrow>
     calls s' = calls s @ [Call_Channel_update None field v] \<and>
     (fault e (Call_Channel_update None field v) = None \<longrightarrow>
        channel_store s' = map (pull_channel field v) (channel_store s) \<and>
        (field = ''identityRef'' \<longrightarrow> (\<forall>c \<in> set (channel_store s'). v \<notin> set (identityRef c))))"
  by (auto simp: removeValuesFromField_def issue_def matches_def Let_def pull_channel_def
      split: option.splits)

theorem removeValuesFromField_absent_ids_witness:
  "removeValuesFromField ok_env NoIds ''identityRef'' 7 ex_state =
     (Inr \<lparr>n = 3, nModified = 2\<rparr>,
      \<lparr>channel_store =
         [\<lparr>name = ''a'', identityRef = [8], extra = [], cid = 1\<rparr>,
          \<lparr>name = ''b'', identityRef = [], extra = [], cid = 2\<rparr>,
          \<lparr>name = ''e'', identityRef = [], extra = [], cid = 4\<rparr>],
       identity_store = identity_store ex_state,
       calls = [Call_Channel_update None ''identityRef'' 7]\<rparr>)
   \<and> fault ok_env (Call_Channel_update None ''identityRef'' 7) = None
   \<and> channel_store (snd (removeValuesFromField ok_env NoIds ''identityRef'' 7 ex_state)) =
       map (pull_channel ''identityRef'' 7) (channel_store ex_state)"
proof -
  have run: "removeValuesFromField ok_env NoIds ''identityRef'' 7 ex_state =
     (Inr \<lparr>n = 3, nModified = 2\<rparr>,
      \<lparr>channel_store =
         [\<lparr>name = ''a'', identityRef = [8], extra = [], cid = 1\<rparr>,
          \<lparr>name = ''b'', identityRef = [], extra = [], cid = 2\<rparr>,
          \<lparr>name = ''e'', identityRef = [], extra = [], cid = 4\<rparr>],
       identity_store = identity_store ex_state,
       calls = [Call_Channel_update None ''identityRef'' 7]\<rparr>)"
    by (simp add: removeValuesFromField_def issue_def matches_def Let_def pull_channel_def
        ex_state_def ok_env_def)
  have nf: "fault ok_env (Call_Channel_update None ''identityRef'' 7) = None"
    by (simp add: ok_env_def)
  from removeValuesFromField_absent_ids [OF run] nf run show ?thesis
    by simp
qed

section \<open>Reading a Channel\<close>

lemma findById_None_iff: "findById i cs = None \<longleftrightarrow> (\<forall>c\<in>set cs. cid c \<noteq> i)"
  by (auto simp: findById_def find_None_iff)

lemma findById_SomeD: "findById i cs = Some c \<Longrightarrow> c \<in> set cs \<and> cid c = i"
  by (auto simp: findById_def find_Some_iff)

lemma getChannel_eq:
  "getChannel e i s =
     (case fault e (Call_Channel_findById i) of
        Some err \<Rightarrow> Inl err
      | None \<Rightarrow> Inr (findById i (channel_store s)),
      issue (Call_Channel_findById i) s)"
  by (simp add: getChannel_def Let_def issue_def split: option.splits)

section \<open>Identity-list retrieval for a Channel\<close>

text \<open>
  C8. \<^verbatim>\<open>retrieveIdentityListForChannel\<close> fails with \<open>BadRequestError\<close> when the
  channel id is missing (nothing is called at all) and, the read having answered, when
  no Channel has that id; for a Channel whose \<^verbatim>\<open>identityRef\<close> is empty it returns the
  empty sequence, and the only call issued is the read of the Channel: the identity
  platform is not invoked.
\<close>

theorem retrieveIdentityListForChannel_guards:
  "retrieveIdentityListForChannel e fmt None s =
     (Inl (BadRequestError ''Missing channel id parameter''), s)
   \<and> (fault e (Call_Channel_findById i) = None \<longrightarrow> (\<forall>c\<in>set (channel_store s). cid c \<noteq> i) \<longrightarrow>
        retrieveIdentityListForChannel e fmt (Some i) s =
          (Inl (BadRequestError ''Requested Channel object not found in database''),
           issue (Call_Channel_findById i) s))
   \<and> (fault e (Call_Channel_findById i) = None \<longrightarrow> findById i (channel_store s) = Some c \<longrightarrow>
        identityRef c = [] \<longrightarrow>
        retrieveIdentityListForChannel e fmt (Some i) s =
          (Inr [], issue (Call_Channel_findById i) s))"
  by (auto simp: retrieveIdentityListForChannel_def getChannel_eq
      dest: findById_SomeD split: option.splits)

theorem retrieveIdentityListForChannel_guards_witness:
  "retrieveIdentityListForChannel ok_env iid None ex_state =
     (Inl (BadRequestError ''Missing channel id parameter''), ex_state)
   \<and> retrieveIdentityListForChannel ok_env iid (Some 5) ex_state =
     (Inl (BadRequestError ''Requested Channel object not found in database''),
      ex_state\<lparr>calls := [Call_Channel_findById 5]\<rparr>)
   \<and> retrieveIdentityListForChannel ok_env iid (Some 4) ex_state =
     (Inr [], ex_state\<lparr>calls := [Call_Channel_findById 4]\<rparr>)"
proof -
  have nf: "fault ok_env (Call_Channel_findById 5) = None"
    "fault ok_env (Call_Channel_findById 4) = None"
    by (simp_all add: ok_env_def)
  have absent: "\<forall>c\<in>set (channel_store ex_state). cid c \<noteq> 5"
    by (simp add: ex_state_def)
  have found: "findById 4 (channel_store ex_state) =
      Some \<lparr>name = ''e'', identityRef = [], extra = [], cid = 4\<rparr>"
    by (simp add: findById_def ex_state_def)
  have empty: "identityRef \<lparr>name = ''e'', identityRef = [], extra = [], cid = 4\<rparr> = []"
    by simp
  have log:
    "issue (Call_Channel_findById 5) ex_state = ex_state\<lparr>calls := [Call_Channel_findById 5]\<rparr>"
    "issue (Call_Channel_findById 4) ex_state = ex_state\<lparr>calls := [Call_Channel_findById 4]\<rparr>"
    by (simp_all add: issue_def ex_state_def)
  from retrieveIdentityListForChannel_guards [of ok_env iid ex_state 5]
       retrieveIdentityListForChannel_guards [of ok_env iid ex_state 4,
         THEN conjunct2, THEN conjunct2]
       nf absent found empty log
  show ?thesis by simp
qed

section \<open>Deleting a Channel\<close>

text \<open>
  C7. The removal having answered, \<^verbatim>\<open>deleteChannel\<close> fails with \<open>NotFoundError\<close>
  when no Channel has the id. When a Channel was removed and its \<^verbatim>\<open>identityRef\<close> is
  empty, it reports success and the removal is the only call issued. When the removed
  Channel's \<^verbatim>\<open>identityRef\<close> is not empty, it asks the identity platform to pull the
  removed Channel's name out of \<^verbatim>\<open>channels\<close> of the referenced Identities; a failure of
  that call is surfaced as \<open>InternalError\<close> (the Channel stays removed), and otherwise
  the operation succeeds.
\<close>

theorem deleteChannel_outcomes:
  "fault e (Call_Channel_findOneAndRemove i) = None \<Longrightarrow>
   ((\<forall>c\<in>set (channel_store s). cid c \<noteq> i) \<longrightarrow>
      deleteChannel e i s =
        (Inl (NotFoundError ''Requested channel not found in database''),
         issue (Call_Channel_findOneAndRemove i) s))
   \<and> (findById i (channel_store s) = Some c \<longrightarrow> identityRef c = [] \<longrightarrow>
      deleteChannel e i s =
        (Inr (), (issue (Call_Channel_findOneAndRemove i) s)
                   \<lparr>channel_store := remove1 c (channel_store s)\<rparr>))
   \<and> (findById i (channel_store s) = Some c \<longrightarrow> identityRef c \<noteq> [] \<longrightarrow>
      calls (snd (deleteChannel e i s)) =
        calls s @ [Call_Channel_findOneAndRemove i,
                   Call_identities_removeValuesFromField (ManyIds (identityRef c)) ''channels''
                     (name c)]
      \<and> channel_store (snd (deleteChannel e i s)) = remove1 c (channel_store s)
      \<and> (fault e (Call_identities_removeValuesFromField (ManyIds (identityRef c)) ''channels''
                    (name c)) \<noteq> None \<longrightarrow>
           fst (deleteChannel e i s) =
             Inl (InternalError ''Could not delete the provided Channel object''))
      \<and> (fault e (Call_identities_removeValuesFromField (ManyIds (identityRef c)) ''channels''
                    (name c)) = None \<longrightarrow>
           fst (deleteChannel e i s) = Inr () \<and>
           identity_store (snd (deleteChannel e i s)) =
             map (\<lambda>x. if iid x \<in> set (identityRef c)
                       then x\<lparr>channels := filter (\<lambda>m. m \<noteq> name c) (channels x)\<rparr> else x)
                 (identity_store s)))"
  by (auto simp: deleteChannel_def identities_removeValuesFromField_def Let_def issue_def
      matches_def ids_filter_def pull_identity_def
      dest: findById_SomeD split: option.splits)

theorem deleteChannel_outcomes_witness:
  "deleteChannel ok_env 5 ex_state =
     (Inl (NotFoundError ''Requested channel not found in database''),
      ex_state\<lparr>calls := [Call_Channel_findOneAndRemove 5]\<rparr>)
   \<and> deleteChannel ok_env 4 ex_state =
     (Inr (),
      \<lparr>channel_store =
         [\<lparr>name = ''a'', identityRef = [7, 8], extra = [], cid = 1\<rparr>,
          \<lparr>name = ''b'', identityRef = [7], extra = [], cid = 2\<rparr>],
       identity_store = identity_store ex_state,
       calls = [Call_Channel_findOneAndRemove 4]\<rparr>)
   \<and> fst (deleteChannel ok_env 1 ex_state) = Inr ()
   \<and> calls (snd (deleteChannel ok_env 1 ex_state)) =
       [Call_Channel_findOneAndRemove 1,
        Call_identities_removeValuesFromField (ManyIds [7, 8]) ''channels'' ''a'']
   \<and> identity_store (snd (deleteChannel ok_env 1 ex_state)) =
       [\<lparr>iid = 7, channels = [''b'']\<rparr>, \<lparr>iid = 8, channels = []\<rparr>]
   \<and> fst (deleteChannel
            (failing (Call_identities_removeValuesFromField (ManyIds [7, 8]) ''channels'' ''a''))
            1 ex_state) =
       Inl (InternalError ''Could not delete the provided Channel object'')
   \<and> channel_store (snd (deleteChannel
            (failing (Call_identities_removeValuesFromField (ManyIds [7, 8]) ''channels'' ''a''))
            1 ex_state)) =
       [\<lparr>name = ''b'', identityRef = [7], extra = [], cid = 2\<rparr>,
        \<lparr>name = ''e'', identityRef = [], extra = [], cid = 4\<rparr>]"
proof -
  let ?a = "\<lparr>name = ''a'', identityRef = [7, 8], extra = [], cid = 1\<rparr>"
  let ?e = "\<lparr>name = ''e'', identityRef = [], extra = [], cid = 4\<rparr>"
  let ?q = "Call_identities_removeValuesFromField (ManyIds [7, 8]) ''channels'' ''a''"
  have f1: "findById 1 (channel_store ex_state) = Some ?a"
    and f4: "findById 4 (channel_store ex_state) = Some ?e"
    by (simp_all add: findById_def ex_state_def)
  have none: "deleteChannel ok_env 5 ex_state =
     (Inl (NotFoundError ''Requested channel not found in database''),
      ex_state\<lparr>calls := [Call_Channel_findOneAndRemove 5]\<rparr>)"
    using deleteChannel_outcomes [of ok_env 5 ex_state]
    by (simp add: ok_env_def ex_state_def issue_def)
  have empty: "deleteChannel ok_env 4 ex_state =
     (Inr (),
      \<lparr>channel_store =
         [\<lparr>name = ''a'', identityRef = [7, 8], extra = [], cid = 1\<rparr>,
          \<lparr>name = ''b'', identityRef = [7], extra = [], cid = 2\<rparr>],
       identity_store = identity_store ex_state,
       calls = [Call_Channel_findOneAndRemove 4]\<rparr>)"
    using deleteChannel_outcomes [of ok_env 4 ex_state ?e] f4
    by (simp add: ok_env_def ex_state_def issue_def)
  have cascade: "fst (deleteChannel ok_env 1 ex_state) = Inr ()
     \<and> calls (snd (deleteChannel ok_env 1 ex_state)) = [Call_Channel_findOneAndRemove 1, ?q]
     \<and> identity_store (snd (deleteChannel ok_env 1 ex_state)) =
         [\<lparr>iid = 7, channels = [''b'']\<rparr>, \<lparr>iid = 8, channels = []\<rparr>]"
    using deleteChannel_outcomes [of ok_env 1 ex_state ?a] f1
    by (simp add: ok_env_def ex_state_def)
  have broken: "fst (deleteChannel (failing ?q) 1 ex_state) =
       Inl (InternalError ''Could not delete the provided Channel object'')
     \<and> channel_store (snd (deleteChannel (failing ?q) 1 ex_state)) =
       [\<lparr>name = ''b'', identityRef = [7], extra = [], cid = 2\<rparr>, ?e]"
    using deleteChannel_outcomes [of "failing ?q" 1 ex_state ?a] f1
    by (simp add: failing_def ex_state_def)
  from none empty cascade broken show ?thesis by simp
qed

section \<open>Creating a Channel\<close>

text \<open>
  C6. The preceding read having answered, \<^verbatim>\<open>createChannel\<close> fails with
  \<open>ConflictError\<close> whenever a stored Channel has the name of the data, whatever the
  other fields of the data are, and nothing is saved. Whenever it succeeds, the document
  it returns and appends to the store is the data merged onto the template
  \<^verbatim>\<open>{name: '', identityRef: []}\<close>: an omitted name is the empty string, an omitted
  \<^verbatim>\<open>identityRef\<close> the empty list. And it does succeed whenever no stored Channel has
  the name of the data and the read and the save answer: it then returns that merged
  document, appends it to the Channel collection, leaves the Identities alone and has
  issued the read and the save, nothing else.
\<close>

theorem createChannel_conflict_and_merge:
  "(fault e (Call_Channel_findOne (Some nm)) = None \<longrightarrow> p_name d = Some nm \<longrightarrow>
      (\<exists>c\<in>set (channel_store s). name c = nm) \<longrightarrow>
      createChannel e d s =
        (Inl (ConflictError ''There already exists a channel with the provided name''),
         issue (Call_Channel_findOne (Some nm)) s))
   \<and> (createChannel e d s = (Inr ch, s') \<longrightarrow>
        ch = new_Channel (new_id e) (extend_obj \<lparr>name = '''', identityRef = [], extra = []\<rparr> d) \<and>
        name ch = (case p_name d of None \<Rightarrow> '''' | Some v \<Rightarrow> v) \<and>
        identityRef ch = (case p_identityRef d of None \<Rightarrow> [] | Some v \<Rightarrow> v) \<and>
        (p_extra d = [] \<longrightarrow> extra ch = []) \<and>
        channel_store s' = channel_store s @ [ch] \<and>
        identity_store s' = identity_store s)
   \<and> (fault e (Call_Channel_findOne (p_name d)) = None \<longrightarrow>
      (\<forall>c\<in>set (channel_store s). Some (name c) \<noteq> p_name d) \<longrightarrow>
      fault e (Call_Channel_save
                 (new_Channel (new_id e)
                    (extend_obj \<lparr>name = '''', identityRef = [], extra = []\<rparr> d))) = None \<longrightarrow>
      createChannel e d s =
        (Inr (new_Channel (new_id e)
                (extend_obj \<lparr>name = '''', identityRef = [], extra = []\<rparr> d)),
         \<lparr>channel_store =
            channel_store s @
              [new_Channel (new_id e)
                 (extend_obj \<lparr>name = '''', identityRef = [], extra = []\<rparr> d)],
          identity_store = identity_store s,
          calls =
            calls s @
              [Call_Channel_findOne (p_name d),
               Call_Channel_save
                 (new_Channel (new_id e)
                    (extend_obj \<lparr>name = '''', identityRef = [], extra = []\<rparr> d))]\<rparr>))"
proof -
  have conflict: "fault e (Call_Channel_findOne (Some nm)) = None \<longrightarrow> p_name d = Some nm \<longrightarrow>
      (\<exists>c\<in>set (channel_store s). name c = nm) \<longrightarrow>
      createChannel e d s =
        (Inl (ConflictError ''There already exists a channel with the provided name''),
         issue (Call_Channel_findOne (Some nm)) s)"
    by (auto simp: createChannel_def Let_def issue_def findOne_name_def find_None_iff
        split: option.splits)
  have merged: "createChannel e d s = (Inr ch, s') \<longrightarrow>
        ch = new_Channel (new_id e) (extend_obj \<lparr>name = '''', identityRef = [], extra = []\<rparr> d) \<and>
        name ch = (case p_name d of None \<Rightarrow> '''' | Some v \<Rightarrow> v) \<and>
        identityRef ch = (case p_identityRef d of None \<Rightarrow> [] | Some v \<Rightarrow> v) \<and>
        (p_extra d = [] \<longrightarrow> extra ch = []) \<and>
        channel_store s' = channel_store s @ [ch] \<and>
        identity_store s' = identity_store s"
    by (auto simp: createChannel_def Let_def issue_def preProcessChannel_def new_Channel_def
        extend_obj_def split: option.splits)
  have succeeds: "fault e (Call_Channel_findOne (p_name d)) = None \<longrightarrow>
      (\<forall>c\<in>set (channel_store s). Some (name c) \<noteq> p_name d) \<longrightarrow>
      fault e (Call_Channel_save
                 (new_Channel (new_id e)
                    (extend_obj \<lparr>name = '''', identityRef = [], extra = []\<rparr> d))) = None \<longrightarrow>
      createChannel e d s =
        (Inr (new_Channel (new_id e)
                (extend_obj \<lparr>name = '''', identityRef = [], extra = []\<rparr> d)),
         \<lparr>channel_store =
            channel_store s @
              [new_Channel (new_id e)
                 (extend_obj \<lparr>name = '''', identityRef = [], extra = []\<rparr> d)],
          identity_store = identity_store s,
          calls =
            calls s @
              [Call_Channel_findOne (p_name d),
               Call_Channel_save
                 (new_Channel (new_id e)
                    (extend_obj \<lparr>name = '''', identityRef = [], extra = []\<rparr> d))]\<rparr>)"
  proof (intro impI)
    assume read: "fault e (Call_Channel_findOne (p_name d)) = None"
      and fresh: "\<forall>c\<in>set (channel_store s). Some (name c) \<noteq> p_name d"
      and save: "fault e (Call_Channel_save
                 (new_Channel (new_id e)
                    (extend_obj \<lparr>name = '''', identityRef = [], extra = []\<rparr> d))) = None"
    from fresh have none: "findOne_name (p_name d) (channel_store s) = None"
      by (simp add: findOne_name_def find_None_iff)
    from read none save show "createChannel e d s =
        (Inr (new_Channel (new_id e)
                (extend_obj \<lparr>name = '''', identityRef = [], extra = []\<rparr> d)),
         \<lparr>channel_store =
            channel_store s @
              [new_Channel (new_id e)
                 (extend_obj \<lparr>name = '''', identityRef = [], extra = []\<rparr> d)],
          identity_store = identity_store s,
          calls =
            calls s @
              [Call_Channel_findOne (p_name d),
               Call_Channel_save
                 (new_Channel (new_id e)
                    (extend_obj \<lparr>name = '''', identityRef = [], extra = []\<rparr> d))]\<rparr>)"
      by (simp add: createChannel_def Let_def issue_def preProcessChannel_def)
  qed
  from conflict merged succeeds show ?thesis
    by (intro conjI)
qed

theorem createChannel_conflict_and_merge_witness:
  "createChannel ok_env \<lparr>p_name = Some ''a'', p_identityRef = Some [9], p_extra = [(''k'', ''v'')]\<rparr>
     ex_state =
     (Inl (ConflictError ''There already exists a channel with the provided name''),
      ex_state\<lparr>calls := [Call_Channel_findOne (Some ''a'')]\<rparr>)
   \<and> createChannel ok_env \<lparr>p_name = None, p_identityRef = None, p_extra = []\<rparr> ex_state =
     (Inr \<lparr>name = '''', identityRef = [], extra = [], cid = 3\<rparr>,
      \<lparr>channel_store = channel_store ex_state @
                          [\<lparr>name = '''', identityRef = [], extra = [], cid = 3\<rparr>],
       identity_store = identity_store ex_state,
       calls = [Call_Channel_findOne None,
                Call_Channel_save \<lparr>name = '''', identityRef = [], extra = [], cid = 3\<rparr>]\<rparr>)
   \<and> new_Channel (new_id ok_env)
        (extend_obj \<lparr>name = '''', identityRef = [], extra = []\<rparr>
           \<lparr>p_name = None, p_identityRef = None, p_extra = []\<rparr>) =
       \<lparr>name = '''', identityRef = [], extra = [], cid = 3\<rparr>
   \<and> createChannel ok_env
       \<lparr>p_name = Some ''c'', p_identityRef = Some [7], p_extra = [(''k'', ''v'')]\<rparr> ex_state =
     (Inr \<lparr>name = ''c'', identityRef = [7], extra = [(''k'', ''v'')], cid = 3\<rparr>,
      \<lparr>channel_store =
         [\<lparr>name = ''a'', identityRef = [7, 8], extra = [], cid = 1\<rparr>,
          \<lparr>name = ''b'', identityRef = [7], extra = [], cid = 2\<rparr>,
          \<lparr>name = ''e'', identityRef = [], extra = [], cid = 4\<rparr>,
          \<lparr>name = ''c'', identityRef = [7], extra = [(''k'', ''v'')], cid = 3\<rparr>],
       identity_store =
         [\<lparr>iid = 7, channels = [''a'', ''b'']\<rparr>, \<lparr>iid = 8, channels = [''a'']\<rparr>],
       calls =
         [Call_Channel_findOne (Some ''c''),
          Call_Channel_save
            \<lparr>name = ''c'', identityRef = [7], extra = [(''k'', ''v'')], cid = 3\<rparr>]\<rparr>)
   \<and> createChannel ok_env \<lparr>p_name = Some ''d'', p_identityRef = None, p_extra = []\<rparr> ex_state =
     (Inr \<lparr>name = ''d'', identityRef = [], extra = [], cid = 3\<rparr>,
      \<lparr>channel_store =
         [\<lparr>name = ''a'', identityRef = [7, 8], extra = [], cid = 1\<rparr>,
          \<lparr>name = ''b'', identityRef = [7], extra = [], cid = 2\<rparr>,
          \<lparr>name = ''e'', identityRef = [], extra = [], cid = 4\<rparr>,
          \<lparr>name = ''d'', identityRef = [], extra = [], cid = 3\<rparr>],
       identity_store =
         [\<lparr>iid = 7, channels = [''a'', ''b'']\<rparr>, \<lparr>iid = 8, channels = [''a'']\<rparr>],
       calls =
         [Call_Channel_findOne (Some ''d''),
          Call_Channel_save \<lparr>name = ''d'', identityRef = [], extra = [], cid = 3\<rparr>]\<rparr>)"
proof -
  let ?d = "\<lparr>p_name = Some ''a'', p_identityRef = Some [9], p_extra = [(''k'', ''v'')]\<rparr>"
  let ?dflt = "\<lparr>p_name = None, p_identityRef = None, p_extra = []\<rparr>"
  let ?dc = "\<lparr>p_name = Some ''c'', p_identityRef = Some [7], p_extra = [(''k'', ''v'')]\<rparr>"
  let ?dd = "\<lparr>p_name = Some ''d'', p_identityRef = None, p_extra = []\<rparr>"
  let ?t = "\<lparr>name = '''', identityRef = [], extra = []\<rparr>"
  let ?ch = "\<lparr>name = '''', identityRef = [], extra = [], cid = 3\<rparr>"
  let ?s' = "\<lparr>channel_store = channel_store ex_state @ [?ch],
       identity_store = identity_store ex_state,
       calls = [Call_Channel_findOne None, Call_Channel_save ?ch]\<rparr>"
  have nf: "\<And>q. fault ok_env q = None"
    by (simp add: ok_env_def)
  have st: "channel_store ex_state =
       [\<lparr>name = ''a'', identityRef = [7, 8], extra = [], cid = 1\<rparr>,
        \<lparr>name = ''b'', identityRef = [7], extra = [], cid = 2\<rparr>,
        \<lparr>name = ''e'', identityRef = [], extra = [], cid = 4\<rparr>]"
    "identity_store ex_state =
       [\<lparr>iid = 7, channels = [''a'', ''b'']\<rparr>, \<lparr>iid = 8, channels = [''a'']\<rparr>]"
    "calls ex_state = []"
    by (simp_all add: ex_state_def)
  have conflict: "createChannel ok_env ?d ex_state =
     (Inl (ConflictError ''There already exists a channel with the provided name''),
      ex_state\<lparr>calls := [Call_Channel_findOne (Some ''a'')]\<rparr>)"
    using createChannel_conflict_and_merge [of ok_env "''a''" ?d ex_state, THEN conjunct1]
    by (simp add: ok_env_def ex_state_def issue_def)
  have fresh: "\<forall>c\<in>set (channel_store ex_state). Some (name c) \<noteq> p_name ?dflt"
    "\<forall>c\<in>set (channel_store ex_state). Some (name c) \<noteq> p_name ?dc"
    "\<forall>c\<in>set (channel_store ex_state). Some (name c) \<noteq> p_name ?dd"
    by (simp_all add: st)
  have doc: "new_Channel (new_id ok_env) (extend_obj ?t ?dflt) = ?ch"
    "new_Channel (new_id ok_env) (extend_obj ?t ?dc) =
       \<lparr>name = ''c'', identityRef = [7], extra = [(''k'', ''v'')], cid = 3\<rparr>"
    "new_Channel (new_id ok_env) (extend_obj ?t ?dd) =
       \<lparr>name = ''d'', identityRef = [], extra = [], cid = 3\<rparr>"
    by (simp_all add: new_Channel_def extend_obj_def ok_env_def)
  have run: "createChannel ok_env ?dflt ex_state = (Inr ?ch, ?s')"
    using createChannel_conflict_and_merge [of ok_env _ ?dflt ex_state,
        THEN conjunct2, THEN conjunct2] nf fresh(1)
    by (simp add: doc st)
  have "?ch = new_Channel (new_id ok_env) (extend_obj ?t ?dflt)"
    by (rule createChannel_conflict_and_merge [of ok_env _ ?dflt ex_state ?ch ?s',
          THEN conjunct2, THEN conjunct1, rule_format, OF run, THEN conjunct1])
  then have same: "new_Channel (new_id ok_env) (extend_obj ?t ?dflt) = ?ch"
    by (rule sym)
  have supplied: "createChannel ok_env ?dc ex_state =
     (Inr \<lparr>name = ''c'', identityRef = [7], extra = [(''k'', ''v'')], cid = 3\<rparr>,
      \<lparr>channel_store =
         [\<lparr>name = ''a'', identityRef = [7, 8], extra = [], cid = 1\<rparr>,
          \<lparr>name = ''b'', identityRef = [7], extra = [], cid = 2\<rparr>,
          \<lparr>name = ''e'', identityRef = [], extra = [], cid = 4\<rparr>,
          \<lparr>name = ''c'', identityRef = [7], extra = [(''k'', ''v'')], cid = 3\<rparr>],
       identity_store =
         [\<lparr>iid = 7, channels = [''a'', ''b'']\<rparr>, \<lparr>iid = 8, channels = [''a'']\<rparr>],
       calls =
         [Call_Channel_findOne (Some ''c''),
          Call_Channel_save
            \<lparr>name = ''c'', identityRef = [7], extra = [(''k'', ''v'')], cid = 3\<rparr>]\<rparr>)"
    using createChannel_conflict_and_merge [of ok_env _ ?dc ex_state,
        THEN conjunct2, THEN conjunct2] nf fresh(2)
    by (simp add: doc st)
  have named: "createChannel ok_env ?dd ex_state =
     (Inr \<lparr>name = ''d'', identityRef = [], extra = [], cid = 3\<rparr>,
      \<lparr>channel_store =
         [\<lparr>name = ''a'', identityRef = [7, 8], extra = [], cid = 1\<rparr>,
          \<lparr>name = ''b'', identityRef = [7], extra = [], cid = 2\<rparr>,
          \<lparr>name = ''e'', identityRef = [], extra = [], cid = 4\<rparr>,
          \<lparr>name = ''d'', identityRef = [], extra = [], cid = 3\<rparr>],
       identity_store =
         [\<lparr>iid = 7, channels = [''a'', ''b'']\<rparr>, \<lparr>iid = 8, channels = [''a'']\<rparr>],
       calls =
         [Call_Channel_findOne (Some ''d''),
          Call_Channel_save \<lparr>name = ''d'', identityRef = [], extra = [], cid = 3\<rparr>]\<rparr>)"
    using createChannel_conflict_and_merge [of ok_env _ ?dd ex_state,
        THEN conjunct2, THEN conjunct2] nf fresh(3)
    by (simp add: doc st)
  from conflict run same supplied named show ?thesis
    by (simp only: st append.simps simp_thms)
qed

section \<open>Updating a Channel\<close>

lemma set_positional_same: "set_positional a a xs = xs"
  by (induction xs) auto

lemma set_positional_absent: "old \<notin> set xs \<Longrightarrow> set_positional old new xs = xs"
  by (induction xs) auto


lemma updateChannel_found:
  assumes "fault e (Call_Channel_findById i) = None"
    and "findById i (channel_store s) = Some c"
    and "u = set_fields c (preProcessChannel (Some (toObject c)) p)"
    and "fault e (Call_Channel_save u) = None"
  shows "updateChannel e i p s =
     (case fault e (Call_identities_update (name c) (name u)) of
        Some err \<Rightarrow> Inl (CollaboratorError err)
      | None \<Rightarrow> Inr (),
      \<lparr>channel_store = replace_doc u (channel_store s),
       identity_store =
         (case fault e (Call_identities_update (name c) (name u)) of
            Some err \<Rightarrow> identity_store s
          | None \<Rightarrow>
              map (\<lambda>x. if name c \<in> set (channels x)
                        then x\<lparr>channels := set_positional (name c) (name u) (channels x)\<rparr>
                        else x)
                  (identity_store s)),
       calls = calls s @ [Call_Channel_findById i, Call_Channel_save u,
                          Call_identities_update (name c) (name u)]\<rparr>)"
  using assms
  by (simp add: updateChannel_def getChannel_eq identities_update_def Let_def issue_def
      toObject_def split: option.splits)

lemma updateChannel_InrD:
  assumes "updateChannel e i p s = (Inr r, s')"
  shows "fault e (Call_Channel_findById i) = None \<and>
         (\<exists>c. findById i (channel_store s) = Some c \<and>
              fault e (Call_Channel_save
                         (set_fields c (preProcessChannel (Some (toObject c)) p))) = None \<and>
              fault e (Call_identities_update (name c)
                         (name (set_fields c (preProcessChannel (Some (toObject c)) p)))) = None)"
  using assms
  by (auto simp: updateChannel_def getChannel_eq identities_update_def Let_def issue_def
      toObject_def split: option.splits)

text \<open>
  C2 (as the code has it). Whenever the Channel was fetched and saved,
  \<^verbatim>\<open>updateChannel\<close> issues the Identity update, with the old name as the filter and the
  saved name as the replacement, whether or not the merge changed the name. When the name
  is unchanged and the update does not fail, every Identity is left as it was.
\<close>

theorem updateChannel_always_propagates:
  "fault e (Call_Channel_findById i) = None \<Longrightarrow>
   findById i (channel_store s) = Some c \<Longrightarrow>
   u = set_fields c (preProcessChannel (Some (toObject c)) p) \<Longrightarrow>
   fault e (Call_Channel_save u) = None \<Longrightarrow>
     calls (snd (updateChannel e i p s)) =
       calls s @ [Call_Channel_findById i, Call_Channel_save u,
                  Call_identities_update (name c) (name u)]
     \<and> (name u = name c \<longrightarrow> fault e (Call_identities_update (name c) (name u)) = None \<longrightarrow>
          identity_store (snd (updateChannel e i p s)) = identity_store s)"
  by (simp add: updateChannel_found set_positional_same map_idI)

theorem updateChannel_always_propagates_witness:
  "calls (snd (updateChannel ok_env 1 \<lparr>p_name = Some ''z'', p_identityRef = None, p_extra = []\<rparr>
                 ex_state)) =
     [Call_Channel_findById 1,
      Call_Channel_save \<lparr>name = ''z'', identityRef = [7, 8], extra = [], cid = 1\<rparr>,
      Call_identities_update ''a'' ''z'']
   \<and> calls (snd (updateChannel ok_env 1 \<lparr>p_name = Some ''a'', p_identityRef = None, p_extra = []\<rparr>
                 ex_state)) =
     [Call_Channel_findById 1,
      Call_Channel_save \<lparr>name = ''a'', identityRef = [7, 8], extra = [], cid = 1\<rparr>,
      Call_identities_update ''a'' ''a'']
   \<and> identity_store (snd (updateChannel ok_env 1
         \<lparr>p_name = Some ''a'', p_identityRef = None, p_extra = []\<rparr> ex_state)) =
       identity_store ex_state"
proof -
  let ?a = "\<lparr>name = ''a'', identityRef = [7, 8], extra = [], cid = 1\<rparr>"
  let ?z = "\<lparr>name = ''z'', identityRef = [7, 8], extra = [], cid = 1\<rparr>"
  let ?pz = "\<lparr>p_name = Some ''z'', p_identityRef = None, p_extra = []\<rparr>"
  let ?pa = "\<lparr>p_name = Some ''a'', p_identityRef = None, p_extra = []\<rparr>"
  have nf: "\<And>q. fault ok_env q = None"
    by (simp add: ok_env_def)
  have f1: "findById 1 (channel_store ex_state) = Some ?a"
    by (simp add: findById_def ex_state_def)
  have uz: "?z = set_fields ?a (preProcessChannel (Some (toObject ?a)) ?pz)"
    and ua: "?a = set_fields ?a (preProcessChannel (Some (toObject ?a)) ?pa)"
    by (simp_all add: set_fields_def preProcessChannel_def toObject_def extend_obj_def)
  have e0: "calls ex_state = []"
    by (simp add: ex_state_def)
  from updateChannel_always_propagates [OF nf f1 uz nf]
       updateChannel_always_propagates [OF nf f1 ua nf] nf e0
  show ?thesis by simp
qed

theorem updateChannel_unchanged_name_counterexample:
  "findById 1 (channel_store ex_state) =
     Some \<lparr>name = ''a'', identityRef = [7, 8], extra = [], cid = 1\<rparr>
   \<and> updateChannel ok_env 1 \<lparr>p_name = None, p_identityRef = None, p_extra = [(''k'', ''v'')]\<rparr>
       ex_state =
     (Inr (),
      \<lparr>channel_store =
         [\<lparr>name = ''a'', identityRef = [7, 8], extra = [(''k'', ''v'')], cid = 1\<rparr>,
          \<lparr>name = ''b'', identityRef = [7], extra = [], cid = 2\<rparr>,
          \<lparr>name = ''e'', identityRef = [], extra = [], cid = 4\<rparr>],
       identity_store = identity_store ex_state,
       calls =
         [Call_Channel_findById 1,
          Call_Channel_save \<lparr>name = ''a'', identityRef = [7, 8], extra = [(''k'', ''v'')], cid = 1\<rparr>,
          Call_identities_update ''a'' ''a'']\<rparr>)"
  by (simp add: updateChannel_def getChannel_eq identities_update_def Let_def issue_def
      toObject_def set_fields_def preProcessChannel_def extend_obj_def findById_def
      ok_env_def ex_state_def)


lemma name_set_fields_preProcess:
  "name (set_fields c (preProcessChannel (Some (toObject c)) p)) =
     (case p_name p of None \<Rightarrow> name c | Some v \<Rightarrow> v)"
  by (simp add: set_fields_def preProcessChannel_def toObject_def extend_obj_def Let_def
      split: option.splits)

lemma identityRef_set_fields_preProcess:
  "identityRef (set_fields c (preProcessChannel (Some (toObject c)) p)) =
     (case p_identityRef p of None \<Rightarrow> identityRef c | Some v \<Rightarrow> v)"
  by (simp add: set_fields_def preProcessChannel_def toObject_def extend_obj_def Let_def
      split: option.splits)

lemma cid_set_fields [simp]: "cid (set_fields c obj) = cid c"
  by (simp add: set_fields_def)



section \<open>Detaching an Identity from a Channel\<close>

lemma identities_get_eq:
  "identities_get e i s =
     (case fault e (Call_identities_get i) of
        Some err \<Rightarrow> Inl err
      | None \<Rightarrow> Inr (find (\<lambda>x. iid x = i) (identity_store s)),
      issue (Call_identities_get i) s)"
  by (simp add: identities_get_def Let_def issue_def split: option.splits)

lemma channel_store_issue [simp]: "channel_store (issue q s) = channel_store s"
  by (simp add: issue_def)

lemma identity_store_issue [simp]: "identity_store (issue q s) = identity_store s"
  by (simp add: issue_def)

lemma calls_issue [simp]: "calls (issue q s) = calls s @ [q]"
  by (simp add: issue_def)

lemma find_iid_SomeD: "find (\<lambda>x. iid x = i) xs = Some x \<Longrightarrow> x \<in> set xs \<and> iid x = i"
  by (auto simp: find_Some_iff)

lemma removeValuesFromField_eq:
  "removeValuesFromField e (OneId ci) field v s =
     (case fault e (Call_Channel_update (Some [ci]) field v) of
        Some err \<Rightarrow> (Inl (InternalError ''Could not delete data from Channel object''),
                     issue (Call_Channel_update (Some [ci]) field v) s)
      | None \<Rightarrow>
          (Inr \<lparr>n = length (filter (\<lambda>c. cid c = ci) (channel_store s)),
                nModified = length (filter (\<lambda>c. pull_channel field v c \<noteq> c)
                                      (filter (\<lambda>c. cid c = ci) (channel_store s)))\<rparr>,
           (issue (Call_Channel_update (Some [ci]) field v) s)
             \<lparr>channel_store :=
                map (\<lambda>c. if cid c = ci then pull_channel field v c else c) (channel_store s)\<rparr>))"
  by (simp add: removeValuesFromField_def Let_def matches_def split: option.splits)

lemma identities_removeValuesFromField_eq:
  "identities_removeValuesFromField e (OneId ii) field v s =
     (case fault e (Call_identities_removeValuesFromField (OneId ii) field v) of
        Some err \<Rightarrow> (Inl err, issue (Call_identities_removeValuesFromField (OneId ii) field v) s)
      | None \<Rightarrow>
          (Inr (),
           (issue (Call_identities_removeValuesFromField (OneId ii) field v) s)
             \<lparr>identity_store :=
                map (\<lambda>x. if iid x = ii then pull_identity field v x else x)
                    (identity_store s)\<rparr>))"
  by (simp add: identities_removeValuesFromField_def Let_def matches_def ids_filter_def
      split: option.splits)

text \<open>
  C3. The failures of \<^verbatim>\<open>deleteIdentityFromChannel\<close> by stage. A failed read of the
  Channel, or no Channel with the id, gives \<open>BadRequestError\<close>, and the read of the
  Channel is the only call issued. With the Channel resolved, a failed read of the
  Identity gives \<open>InternalError\<close> and an absent Identity \<open>BadRequestError\<close>, and the
  two reads are the only calls issued. With both resolved, the operation fails with
  \<open>ConflictError\<close> exactly when the Identity's \<^verbatim>\<open>channels\<close> does not hold the
  Channel's name or the Channel's \<^verbatim>\<open>identityRef\<close> does not hold the Identity's id, and
  then again the two reads are the only calls issued. In all these failures both
  collections are left as they were.
\<close>

theorem deleteIdentityFromChannel_stages:
  "(fault e (Call_Channel_findById ci) \<noteq> None \<longrightarrow>
      deleteIdentityFromChannel e ci ii s =
        (Inl (BadRequestError ''Could not fetch requested Channel object''),
         issue (Call_Channel_findById ci) s))
   \<and> (fault e (Call_Channel_findById ci) = None \<longrightarrow> (\<forall>c\<in>set (channel_store s). cid c \<noteq> ci) \<longrightarrow>
      deleteIdentityFromChannel e ci ii s =
        (Inl (BadRequestError ''Requested Channel object not found in database''),
         issue (Call_Channel_findById ci) s))
   \<and> (fault e (Call_Channel_findById ci) = None \<longrightarrow> findById ci (channel_store s) = Some c \<longrightarrow>
        (fault e (Call_identities_get ii) \<noteq> None \<longrightarrow>
           deleteIdentityFromChannel e ci ii s =
             (Inl (InternalError ''Could not fetch requested Identity object''),
              issue (Call_identities_get ii) (issue (Call_Channel_findById ci) s)))
      \<and> (fault e (Call_identities_get ii) = None \<longrightarrow> (\<forall>x\<in>set (identity_store s). iid x \<noteq> ii) \<longrightarrow>
           deleteIdentityFromChannel e ci ii s =
             (Inl (BadRequestError ''Requested Identity object not found in database''),
              issue (Call_identities_get ii) (issue (Call_Channel_findById ci) s)))
      \<and> (fault e (Call_identities_get ii) = None \<longrightarrow>
           find (\<lambda>x. iid x = ii) (identity_store s) = Some x \<longrightarrow>
             ((\<exists>m. fst (deleteIdentityFromChannel e ci ii s) = Inl (ConflictError m)) \<longleftrightarrow>
                (name c \<notin> set (channels x) \<or> iid x \<notin> set (identityRef c)))
           \<and> (name c \<notin> set (channels x) \<or> iid x \<notin> set (identityRef c) \<longrightarrow>
                deleteIdentityFromChannel e ci ii s =
                  (Inl (ConflictError
                     ''No relationship exist between the provided Channel and Identity objects''),
                   issue (Call_identities_get ii) (issue (Call_Channel_findById ci) s)))))"
proof -
  have A: "fault e (Call_Channel_findById ci) \<noteq> None \<longrightarrow>
      deleteIdentityFromChannel e ci ii s =
        (Inl (BadRequestError ''Could not fetch requested Channel object''),
         issue (Call_Channel_findById ci) s)"
    by (auto simp: deleteIdentityFromChannel_def getChannel_eq)
  have B: "fault e (Call_Channel_findById ci) = None \<longrightarrow>
      (\<forall>c\<in>set (channel_store s). cid c \<noteq> ci) \<longrightarrow>
      deleteIdentityFromChannel e ci ii s =
        (Inl (BadRequestError ''Requested Channel object not found in database''),
         issue (Call_Channel_findById ci) s)"
    by (simp add: deleteIdentityFromChannel_def getChannel_eq findById_None_iff [symmetric])
  have C: "fault e (Call_Channel_findById ci) = None \<Longrightarrow>
      findById ci (channel_store s) = Some c \<Longrightarrow>
      fault e (Call_identities_get ii) \<noteq> None \<Longrightarrow>
      deleteIdentityFromChannel e ci ii s =
        (Inl (InternalError ''Could not fetch requested Identity object''),
         issue (Call_identities_get ii) (issue (Call_Channel_findById ci) s))"
    by (auto simp: deleteIdentityFromChannel_def getChannel_eq identities_get_eq)
  have D: "fault e (Call_Channel_findById ci) = None \<Longrightarrow>
      findById ci (channel_store s) = Some c \<Longrightarrow>
      fault e (Call_identities_get ii) = None \<Longrightarrow>
      (\<forall>x\<in>set (identity_store s). iid x \<noteq> ii) \<Longrightarrow>
      deleteIdentityFromChannel e ci ii s =
        (Inl (BadRequestError ''Requested Identity object not found in database''),
         issue (Call_identities_get ii) (issue (Call_Channel_findById ci) s))"
  proof -
    assume h: "fault e (Call_Channel_findById ci) = None"
      "findById ci (channel_store s) = Some c"
      "fault e (Call_identities_get ii) = None"
      "\<forall>x\<in>set (identity_store s). iid x \<noteq> ii"
    from h(4) have "find (\<lambda>x. iid x = ii) (identity_store s) = None"
      by (simp add: find_None_iff)
    with h(1-3) show ?thesis
      by (simp add: deleteIdentityFromChannel_def getChannel_eq identities_get_eq)
  qed
  have E: "fault e (Call_Channel_findById ci) = None \<Longrightarrow>
      findById ci (channel_store s) = Some c \<Longrightarrow>
      fault e (Call_identities_get ii) = None \<Longrightarrow>
      find (\<lambda>x. iid x = ii) (identity_store s) = Some x \<Longrightarrow>
      name c \<notin> set (channels x) \<or> iid x \<notin> set (identityRef c) \<Longrightarrow>
      deleteIdentityFromChannel e ci ii s =
        (Inl (ConflictError
           ''No relationship exist between the provided Channel and Identity objects''),
         issue (Call_identities_get ii) (issue (Call_Channel_findById ci) s))"
    by (auto simp: deleteIdentityFromChannel_def getChannel_eq identities_get_eq list_ex_iff)
  have F: "fault e (Call_Channel_findById ci) = None \<Longrightarrow>
      findById ci (channel_store s) = Some c \<Longrightarrow>
      fault e (Call_identities_get ii) = None \<Longrightarrow>
      find (\<lambda>x. iid x = ii) (identity_store s) = Some x \<Longrightarrow>
      name c \<in> set (channels x) \<Longrightarrow> iid x \<in> set (identityRef c) \<Longrightarrow>
      fst (deleteIdentityFromChannel e ci ii s) \<noteq> Inl (ConflictError m)" for m
  proof -
    assume h: "fault e (Call_Channel_findById ci) = None"
      "findById ci (channel_store s) = Some c"
      "fault e (Call_identities_get ii) = None"
      "find (\<lambda>x. iid x = ii) (identity_store s) = Some x"
      "name c \<in> set (channels x)" "iid x \<in> set (identityRef c)"
    from h show ?thesis
      by (simp add: deleteIdentityFromChannel_def getChannel_eq identities_get_eq list_ex_iff
          removeValuesFromField_eq identities_removeValuesFromField_eq parallel_outcome_def
          split: option.splits)
  qed
  from A B C D E F show ?thesis
    by (intro conjI impI iffI) (auto simp: fst_conv)
qed

theorem deleteIdentityFromChannel_stages_witness:
  "deleteIdentityFromChannel (failing (Call_Channel_findById 1)) 1 7 ex_state =
     (Inl (BadRequestError ''Could not fetch requested Channel object''),
      issue (Call_Channel_findById 1) ex_state)
   \<and> deleteIdentityFromChannel ok_env 5 7 ex_state =
     (Inl (BadRequestError ''Requested Channel object not found in database''),
      issue (Call_Channel_findById 5) ex_state)
   \<and> deleteIdentityFromChannel (failing (Call_identities_get 7)) 1 7 ex_state =
     (Inl (InternalError ''Could not fetch requested Identity object''),
      issue (Call_identities_get 7) (issue (Call_Channel_findById 1) ex_state))
   \<and> deleteIdentityFromChannel ok_env 1 9 ex_state =
     (Inl (BadRequestError ''Requested Identity object not found in database''),
      issue (Call_identities_get 9) (issue (Call_Channel_findById 1) ex_state))
   \<and> deleteIdentityFromChannel ok_env 2 8 ex_state =
     (Inl (ConflictError
        ''No relationship exist between the provided Channel and Identity objects''),
      issue (Call_identities_get 8) (issue (Call_Channel_findById 2) ex_state))
   \<and> fst (deleteIdentityFromChannel ok_env 1 7 ex_state) \<noteq>
       Inl (ConflictError
         ''No relationship exist between the provided Channel and Identity objects'')"
proof -
  let ?a = "\<lparr>name = ''a'', identityRef = [7, 8], extra = [], cid = 1\<rparr>"
  let ?b = "\<lparr>name = ''b'', identityRef = [7], extra = [], cid = 2\<rparr>"
  let ?i7 = "\<lparr>iid = 7, channels = [''a'', ''b'']\<rparr>"
  let ?i8 = "\<lparr>iid = 8, channels = [''a'']\<rparr>"
  have nf: "\<And>q. fault ok_env q = None"
    by (simp add: ok_env_def)
  have f1: "findById 1 (channel_store ex_state) = Some ?a"
    and f2: "findById 2 (channel_store ex_state) = Some ?b"
    and f5: "\<forall>c\<in>set (channel_store ex_state). cid c \<noteq> 5"
    and g7: "find (\<lambda>x. iid x = 7) (identity_store ex_state) = Some ?i7"
    and g8: "find (\<lambda>x. iid x = 8) (identity_store ex_state) = Some ?i8"
    and g9: "\<forall>x\<in>set (identity_store ex_state). iid x \<noteq> 9"
    by (simp_all add: findById_def ex_state_def)
  have w1: "deleteIdentityFromChannel (failing (Call_Channel_findById 1)) 1 7 ex_state =
     (Inl (BadRequestError ''Could not fetch requested Channel object''),
      issue (Call_Channel_findById 1) ex_state)"
    using deleteIdentityFromChannel_stages [of "failing (Call_Channel_findById 1)" 1 7 ex_state]
    by (simp add: failing_def)
  have w2: "deleteIdentityFromChannel ok_env 5 7 ex_state =
     (Inl (BadRequestError ''Requested Channel object not found in database''),
      issue (Call_Channel_findById 5) ex_state)"
    using deleteIdentityFromChannel_stages [of ok_env 5 7 ex_state] nf f5
    by simp
  have w3: "deleteIdentityFromChannel (failing (Call_identities_get 7)) 1 7 ex_state =
     (Inl (InternalError ''Could not fetch requested Identity object''),
      issue (Call_identities_get 7) (issue (Call_Channel_findById 1) ex_state))"
    using deleteIdentityFromChannel_stages [of "failing (Call_identities_get 7)" 1 7 ex_state ?a]
      f1
    by (simp add: failing_def)
  have w4: "deleteIdentityFromChannel ok_env 1 9 ex_state =
     (Inl (BadRequestError ''Requested Identity object not found in database''),
      issue (Call_identities_get 9) (issue (Call_Channel_findById 1) ex_state))"
    using deleteIdentityFromChannel_stages [of ok_env 1 9 ex_state ?a] nf f1 g9
    by simp
  have w5: "deleteIdentityFromChannel ok_env 2 8 ex_state =
     (Inl (ConflictError
        ''No relationship exist between the provided Channel and Identity objects''),
      issue (Call_identities_get 8) (issue (Call_Channel_findById 2) ex_state))"
    using deleteIdentityFromChannel_stages [of ok_env 2 8 ex_state ?b ?i8] nf f2 g8
    by simp
  have w6: "fst (deleteIdentityFromChannel ok_env 1 7 ex_state) \<noteq>
       Inl (ConflictError
         ''No relationship exist between the provided Channel and Identity objects'')"
    using deleteIdentityFromChannel_stages [of ok_env 1 7 ex_state ?a ?i7] nf f1 g7
    by simp
  from w1 w2 w3 w4 w5 w6 show ?thesis by blast
qed

lemma findById_map:
  "(\<And>d. cid (f d) = cid d) \<Longrightarrow> findById i (map f cs) = map_option f (findById i cs)"
  by (induction cs) (auto simp: findById_def)

lemma find_iid_map:
  "(\<And>y. iid (f y) = iid y) \<Longrightarrow>
     find (\<lambda>x. iid x = i) (map f xs) = map_option f (find (\<lambda>x. iid x = i) xs)"
  by (induction xs) auto

lemma detach_conflict:
  "fault e (Call_Channel_findById ci) = None \<Longrightarrow>
   findById ci (channel_store s) = Some c \<Longrightarrow>
   fault e (Call_identities_get ii) = None \<Longrightarrow>
   find (\<lambda>x. iid x = ii) (identity_store s) = Some x \<Longrightarrow>
   name c \<notin> set (channels x) \<or> iid x \<notin> set (identityRef c) \<Longrightarrow>
     deleteIdentityFromChannel e ci ii s =
       (Inl (ConflictError
          ''No relationship exist between the provided Channel and Identity objects''),
        issue (Call_identities_get ii) (issue (Call_Channel_findById ci) s))"
  by (auto simp: deleteIdentityFromChannel_def getChannel_eq identities_get_eq list_ex_iff)

lemma detach_symmetric:
  assumes "fault e (Call_Channel_findById ci) = None"
    and "findById ci (channel_store s) = Some c"
    and "fault e (Call_identities_get ii) = None"
    and "find (\<lambda>x. iid x = ii) (identity_store s) = Some x"
    and "name c \<in> set (channels x)" and "ii \<in> set (identityRef c)"
  shows "deleteIdentityFromChannel e ci ii s =
     (parallel_outcome (channel_pull_first e)
        (case fault e (Call_Channel_update (Some [ci]) ''identityRef'' ii) of
           Some err \<Rightarrow> Inl (InternalError ''Could not delete data from Channel object'')
         | None \<Rightarrow>
             Inr \<lparr>n = length (filter (\<lambda>c. cid c = ci) (channel_store s)),
                  nModified = length (filter (\<lambda>c. pull_channel ''identityRef'' ii c \<noteq> c)
                                        (filter (\<lambda>c. cid c = ci) (channel_store s)))\<rparr>)
        (case fault e (Call_identities_removeValuesFromField (OneId ii) ''channels'' (name c)) of
           Some err \<Rightarrow> Inl err
         | None \<Rightarrow> Inr ()),
      \<lparr>channel_store =
         (case fault e (Call_Channel_update (Some [ci]) ''identityRef'' ii) of
            Some err \<Rightarrow> channel_store s
          | None \<Rightarrow>
              map (\<lambda>d. if cid d = ci then pull_channel ''identityRef'' ii d else d)
                  (channel_store s)),
       identity_store =
         (case fault e (Call_identities_removeValuesFromField (OneId ii) ''channels'' (name c)) of
            Some err \<Rightarrow> identity_store s
          | None \<Rightarrow>
              map (\<lambda>y. if iid y = ii then pull_identity ''channels'' (name c) y else y)
                  (identity_store s)),
       calls = calls s @
         [Call_Channel_findById ci, Call_identities_get ii,
          Call_Channel_update (Some [ci]) ''identityRef'' ii,
          Call_identities_removeValuesFromField (OneId ii) ''channels'' (name c)]\<rparr>)"
proof -
  let ?q1 = "Call_Channel_update (Some [ci]) ''identityRef'' ii"
  let ?q2 = "Call_identities_removeValuesFromField (OneId ii) ''channels'' (name c)"
  have ix: "iid x = ii"
    using find_iid_SomeD [OF assms(4)] by simp
  have unfold: "deleteIdentityFromChannel e ci ii s =
      (case removeValuesFromField e (OneId ci) ''identityRef'' ii
              (issue (Call_identities_get ii) (issue (Call_Channel_findById ci) s)) of
         (r1, s3) \<Rightarrow>
           (case identities_removeValuesFromField e (OneId ii) ''channels'' (name c) s3 of
              (r2, s4) \<Rightarrow> (parallel_outcome (channel_pull_first e) r1 r2, s4)))"
    using assms ix
    by (simp add: deleteIdentityFromChannel_def getChannel_eq identities_get_eq list_ex_iff)
  show ?thesis
  proof (cases "fault e ?q1")
    case n1: None
    show ?thesis
    proof (cases "fault e ?q2")
      case None
      with n1 show ?thesis
        by (simp add: unfold removeValuesFromField_eq identities_removeValuesFromField_eq
            issue_def)
    next
      case (Some err)
      with n1 show ?thesis
        by (simp add: unfold removeValuesFromField_eq identities_removeValuesFromField_eq
            issue_def)
    qed
  next
    case s1: (Some err1)
    show ?thesis
    proof (cases "fault e ?q2")
      case None
      with s1 show ?thesis
        by (simp add: unfold removeValuesFromField_eq identities_removeValuesFromField_eq
            issue_def)
    next
      case (Some err)
      with s1 show ?thesis
        by (simp add: unfold removeValuesFromField_eq identities_removeValuesFromField_eq
            issue_def)
    qed
  qed
qed

text \<open>
  C4. In a symmetric state (both reads answer, the Channel's \<^verbatim>\<open>identityRef\<close> holds the
  Identity's id and the Identity's \<^verbatim>\<open>channels\<close> holds the Channel's name)
  \<^verbatim>\<open>deleteIdentityFromChannel\<close> issues both pulls, the id out of \<^verbatim>\<open>identityRef\<close> of the
  Channel and the name out of \<^verbatim>\<open>channels\<close> of the Identity. It succeeds exactly when
  both pulls succeed. Each pull that succeeds takes effect whether or not the other one
  fails: nothing is rolled back. After a successful detach, a second detach of the same
  pair whose reads answer fails with \<open>ConflictError\<close> and issues no pull.
\<close>

theorem deleteIdentityFromChannel_mutual_removal:
  "fault e (Call_Channel_findById ci) = None \<Longrightarrow>
   fault e (Call_identities_get ii) = None \<Longrightarrow>
   findById ci (channel_store s) = Some c \<Longrightarrow>
   find (\<lambda>x. iid x = ii) (identity_store s) = Some x \<Longrightarrow>
   name c \<in> set (channels x) \<Longrightarrow>
   ii \<in> set (identityRef c) \<Longrightarrow>
   s' = snd (deleteIdentityFromChannel e ci ii s) \<Longrightarrow>
   q1 = Call_Channel_update (Some [ci]) ''identityRef'' ii \<Longrightarrow>
   q2 = Call_identities_removeValuesFromField (OneId ii) ''channels'' (name c) \<Longrightarrow>
     calls s' = calls s @ [Call_Channel_findById ci, Call_identities_get ii, q1, q2]
     \<and> ((\<exists>r. fst (deleteIdentityFromChannel e ci ii s) = Inr r) \<longleftrightarrow>
          (fault e q1 = None \<and> fault e q2 = None))
     \<and> channel_store s' =
         (if fault e q1 = None
          then map (\<lambda>d. if cid d = ci
                         then d\<lparr>identityRef := filter (\<lambda>y. y \<noteq> ii) (identityRef d)\<rparr> else d)
                   (channel_store s)
          else channel_store s)
     \<and> identity_store s' =
         (if fault e q2 = None
          then map (\<lambda>y. if iid y = ii
                         then y\<lparr>channels := filter (\<lambda>m. m \<noteq> name c) (channels y)\<rparr> else y)
                   (identity_store s)
          else identity_store s)
     \<and> (fault e q1 = None \<longrightarrow> fault e q2 = None \<longrightarrow>
          (\<forall>e2. fault e2 (Call_Channel_findById ci) = None \<longrightarrow>
                fault e2 (Call_identities_get ii) = None \<longrightarrow>
                deleteIdentityFromChannel e2 ci ii s' =
                  (Inl (ConflictError
                     ''No relationship exist between the provided Channel and Identity objects''),
                   issue (Call_identities_get ii) (issue (Call_Channel_findById ci) s'))))"
proof -
  assume r1: "fault e (Call_Channel_findById ci) = None"
    and r2: "fault e (Call_identities_get ii) = None"
    and fc: "findById ci (channel_store s) = Some c"
    and fx: "find (\<lambda>x. iid x = ii) (identity_store s) = Some x"
    and sym: "name c \<in> set (channels x)" "ii \<in> set (identityRef c)"
    and s': "s' = snd (deleteIdentityFromChannel e ci ii s)"
    and q1: "q1 = Call_Channel_update (Some [ci]) ''identityRef'' ii"
    and q2: "q2 = Call_identities_removeValuesFromField (OneId ii) ''channels'' (name c)"
  note run = detach_symmetric [OF r1 fc r2 fx sym]
  let ?pc = "\<lambda>d. if cid d = ci
                  then d\<lparr>identityRef := filter (\<lambda>y. y \<noteq> ii) (identityRef d)\<rparr> else d"
  let ?pi = "\<lambda>y. if iid y = ii
                  then y\<lparr>channels := filter (\<lambda>m. m \<noteq> name c) (channels y)\<rparr> else y"
  have A: "calls s' = calls s @ [Call_Channel_findById ci, Call_identities_get ii, q1, q2]"
    by (simp add: s' run q1 q2)
  have B: "(\<exists>r. fst (deleteIdentityFromChannel e ci ii s) = Inr r) \<longleftrightarrow>
          (fault e q1 = None \<and> fault e q2 = None)"
    by (auto simp: run q1 q2 parallel_outcome_def split: option.splits)
  have C: "channel_store s' = (if fault e q1 = None then map ?pc (channel_store s)
                               else channel_store s)"
    by (auto simp: s' run q1 pull_channel_def split: option.splits)
  have D: "identity_store s' = (if fault e q2 = None then map ?pi (identity_store s)
                                else identity_store s)"
    by (auto simp: s' run q2 pull_identity_def split: option.splits)
  have E: "deleteIdentityFromChannel e2 ci ii s' =
             (Inl (ConflictError
                ''No relationship exist between the provided Channel and Identity objects''),
              issue (Call_identities_get ii) (issue (Call_Channel_findById ci) s'))"
    if ok: "fault e q1 = None" "fault e q2 = None"
      and rd: "fault e2 (Call_Channel_findById ci) = None" "fault e2 (Call_identities_get ii) = None"
    for e2
  proof -
    have "findById ci (channel_store s') = Some (?pc c)"
      using fc by (simp add: C ok findById_map)
    moreover have "find (\<lambda>x. iid x = ii) (identity_store s') = Some (?pi x)"
      using fx by (simp add: D ok find_iid_map)
    moreover have "name (?pc c) \<notin> set (channels (?pi x))"
      using find_iid_SomeD [OF fx] by simp
    ultimately show ?thesis
      using rd by (intro detach_conflict) auto
  qed
  from A B C D E show ?thesis by blast
qed

theorem deleteIdentityFromChannel_mutual_removal_witness:
  "deleteIdentityFromChannel ok_env 1 7 ex_state =
     (Inr \<lparr>n = 1, nModified = 1\<rparr>,
      \<lparr>channel_store =
         [\<lparr>name = ''a'', identityRef = [8], extra = [], cid = 1\<rparr>,
          \<lparr>name = ''b'', identityRef = [7], extra = [], cid = 2\<rparr>,
          \<lparr>name = ''e'', identityRef = [], extra = [], cid = 4\<rparr>],
       identity_store = [\<lparr>iid = 7, channels = [''b'']\<rparr>, \<lparr>iid = 8, channels = [''a'']\<rparr>],
       calls =
         [Call_Channel_findById 1, Call_identities_get 7,
          Call_Channel_update (Some [1]) ''identityRef'' 7,
          Call_identities_removeValuesFromField (OneId 7) ''channels'' ''a'']\<rparr>)
   \<and> fst (deleteIdentityFromChannel ok_env 1 7
             (snd (deleteIdentityFromChannel ok_env 1 7 ex_state))) =
       Inl (ConflictError
         ''No relationship exist between the provided Channel and Identity objects'')
   \<and> channel_store (snd (deleteIdentityFromChannel
         (failing (Call_identities_removeValuesFromField (OneId 7) ''channels'' ''a''))
         1 7 ex_state)) =
       [\<lparr>name = ''a'', identityRef = [8], extra = [], cid = 1\<rparr>,
        \<lparr>name = ''b'', identityRef = [7], extra = [], cid = 2\<rparr>,
        \<lparr>name = ''e'', identityRef = [], extra = [], cid = 4\<rparr>]
   \<and> identity_store (snd (deleteIdentityFromChannel
         (failing (Call_identities_removeValuesFromField (OneId 7) ''channels'' ''a''))
         1 7 ex_state)) =
       [\<lparr>iid = 7, channels = [''a'', ''b'']\<rparr>, \<lparr>iid = 8, channels = [''a'']\<rparr>]"
proof -
  let ?a = "\<lparr>name = ''a'', identityRef = [7, 8], extra = [], cid = 1\<rparr>"
  let ?i7 = "\<lparr>iid = 7, channels = [''a'', ''b'']\<rparr>"
  let ?q2 = "Call_identities_removeValuesFromField (OneId 7) ''channels'' ''a''"
  have nf: "\<And>q. fault ok_env q = None"
    by (simp add: ok_env_def)
  have ff: "fault (failing ?q2) (Call_Channel_findById 1) = None"
    "fault (failing ?q2) (Call_identities_get 7) = None"
    "fault (failing ?q2) (Call_Channel_update (Some [1]) ''identityRef'' 7) = None"
    "fault (failing ?q2) ?q2 \<noteq> None"
    by (simp_all add: failing_def)
  have f1: "findById 1 (channel_store ex_state) = Some ?a"
    and g7: "find (\<lambda>x. iid x = 7) (identity_store ex_state) = Some ?i7"
    by (simp_all add: findById_def ex_state_def)
  have sym: "name ?a \<in> set (channels ?i7)" "7 \<in> set (identityRef ?a)"
    by simp_all
  have st: "channel_store ex_state =
       [?a, \<lparr>name = ''b'', identityRef = [7], extra = [], cid = 2\<rparr>,
        \<lparr>name = ''e'', identityRef = [], extra = [], cid = 4\<rparr>]"
    "identity_store ex_state = [?i7, \<lparr>iid = 8, channels = [''a'']\<rparr>]"
    "calls ex_state = []"
    by (simp_all add: ex_state_def)
  note ok = deleteIdentityFromChannel_mutual_removal
              [OF nf nf f1 g7 sym refl refl refl]
  note ko = deleteIdentityFromChannel_mutual_removal
              [OF ff(1) ff(2) f1 g7 sym refl refl refl]
  have run: "deleteIdentityFromChannel ok_env 1 7 ex_state =
     (Inr \<lparr>n = 1, nModified = 1\<rparr>,
      \<lparr>channel_store =
         [\<lparr>name = ''a'', identityRef = [8], extra = [], cid = 1\<rparr>,
          \<lparr>name = ''b'', identityRef = [7], extra = [], cid = 2\<rparr>,
          \<lparr>name = ''e'', identityRef = [], extra = [], cid = 4\<rparr>],
       identity_store = [\<lparr>iid = 7, channels = [''b'']\<rparr>, \<lparr>iid = 8, channels = [''a'']\<rparr>],
       calls =
         [Call_Channel_findById 1, Call_identities_get 7,
          Call_Channel_update (Some [1]) ''identityRef'' 7, ?q2]\<rparr>)"
    using detach_symmetric [OF nf f1 nf g7 sym]
    by (simp add: nf st parallel_outcome_def pull_channel_def pull_identity_def)
  have again: "fst (deleteIdentityFromChannel ok_env 1 7
             (snd (deleteIdentityFromChannel ok_env 1 7 ex_state))) =
       Inl (ConflictError
         ''No relationship exist between the provided Channel and Identity objects'')"
    using ok nf by simp
  have partial: "channel_store (snd (deleteIdentityFromChannel (failing ?q2) 1 7 ex_state)) =
       [\<lparr>name = ''a'', identityRef = [8], extra = [], cid = 1\<rparr>,
        \<lparr>name = ''b'', identityRef = [7], extra = [], cid = 2\<rparr>,
        \<lparr>name = ''e'', identityRef = [], extra = [], cid = 4\<rparr>]
     \<and> identity_store (snd (deleteIdentityFromChannel (failing ?q2) 1 7 ex_state)) =
       [?i7, \<lparr>iid = 8, channels = [''a'']\<rparr>]"
    using ko ff(3,4) by (simp add: st)
  from run again partial show ?thesis by blast
qed

section \<open>What a failed call surfaces as\<close>

text \<open>
  C9 (as the code has it). A failed call of the Channel model or of the identity
  platform reaches the caller as follows. \<^verbatim>\<open>createChannel\<close> (the read and the save),
  \<^verbatim>\<open>deleteChannel\<close> (the removal), \<^verbatim>\<open>updateChannel\<close> (the read, the save and the
  Identity update) and \<^verbatim>\<open>retrieveIdentityListForChannel\<close> (the read and the Identity
  lookup) hand the error they received to the caller unchanged, and so does
  \<^verbatim>\<open>deleteIdentityFromChannel\<close> for its Identity-side pull. An \<open>InternalError\<close> is
  returned for the cleanup of \<^verbatim>\<open>deleteChannel\<close>, for the bulk update of
  \<^verbatim>\<open>removeValuesFromField\<close> (hence for the Channel-side pull of a detach) and for the
  read of the Identity in a detach; it is built from a fixed message and does not hold
  the error received. The read of the Channel in a detach surfaces as
  \<open>BadRequestError\<close>.
\<close>

theorem failed_call_surfacing:
  "(fault e (Call_Channel_findOne (p_name d)) = Some err \<longrightarrow>
      fst (createChannel e d s) = Inl (StoreError err))
   \<and> (fault e (Call_Channel_findOne (p_name d)) = None \<longrightarrow>
      findOne_name (p_name d) (channel_store s) = None \<longrightarrow>
      fault e (Call_Channel_save (new_Channel (new_id e) (preProcessChannel None d))) = Some err \<longrightarrow>
      fst (createChannel e d s) = Inl (StoreError err))
   \<and> (fault e (Call_Channel_findOneAndRemove i) = Some err \<longrightarrow>
      fst (deleteChannel e i s) = Inl (StoreError err))
   \<and> (fault e (Call_Channel_findOneAndRemove i) = None \<longrightarrow>
      findById i (channel_store s) = Some c \<longrightarrow> identityRef c \<noteq> [] \<longrightarrow>
      fault e (Call_identities_removeValuesFromField (ManyIds (identityRef c)) ''channels''
                 (name c)) = Some err \<longrightarrow>
      fst (deleteChannel e i s) =
        Inl (InternalError ''Could not delete the provided Channel object''))
   \<and> (fault e (Call_Channel_findById i) = Some err \<longrightarrow>
      fst (updateChannel e i p s) = Inl (StoreError err) \<and>
      fst (retrieveIdentityListForChannel e fmt (Some i) s) = Inl (StoreError err) \<and>
      fst (deleteIdentityFromChannel e i j s) =
        Inl (BadRequestError ''Could not fetch requested Channel object''))
   \<and> (fault e (Call_Channel_findById i) = None \<longrightarrow> findById i (channel_store s) = Some c \<longrightarrow>
        (fault e (Call_Channel_save (set_fields c (preProcessChannel (Some (toObject c)) p))) =
           Some err \<longrightarrow>
         fst (updateChannel e i p s) = Inl (StoreError err))
      \<and> (fault e (Call_Channel_save (set_fields c (preProcessChannel (Some (toObject c)) p))) =
           None \<longrightarrow>
         fault e (Call_identities_update (name c)
                    (name (set_fields c (preProcessChannel (Some (toObject c)) p)))) =
           Some err \<longrightarrow>
         fst (updateChannel e i p s) = Inl (CollaboratorError err))
      \<and> (identityRef c \<noteq> [] \<longrightarrow>
         fault e (Call_identities_findIdentitiesByFieldValue ''_id'' (identityRef c)) =
           Some err \<longrightarrow>
         fst (retrieveIdentityListForChannel e fmt (Some i) s) = Inl (CollaboratorError err))
      \<and> (fault e (Call_identities_get j) = Some err \<longrightarrow>
         fst (deleteIdentityFromChannel e i j s) =
           Inl (InternalError ''Could not fetch requested Identity object''))
      \<and> (fault e (Call_identities_get j) = None \<longrightarrow>
         find (\<lambda>x. iid x = j) (identity_store s) = Some x \<longrightarrow>
         name c \<in> set (channels x) \<longrightarrow> j \<in> set (identityRef c) \<longrightarrow>
           (fault e (Call_Channel_update (Some [i]) ''identityRef'' j) = Some err \<longrightarrow>
            fault e (Call_identities_removeValuesFromField (OneId j) ''channels'' (name c)) =
              None \<longrightarrow>
            fst (deleteIdentityFromChannel e i j s) =
              Inl (InternalError ''Could not delete data from Channel object''))
         \<and> (fault e (Call_Channel_update (Some [i]) ''identityRef'' j) = None \<longrightarrow>
            fault e (Call_identities_removeValuesFromField (OneId j) ''channels'' (name c)) =
              Some err \<longrightarrow>
            fst (deleteIdentityFromChannel e i j s) = Inl (CollaboratorError err))))
   \<and> (fault e (Call_Channel_update (ids_filter a) field v) = Some err \<longrightarrow>
      fst (removeValuesFromField e a field v s) =
        Inl (InternalError ''Could not delete data from Channel object''))"
proof -
  have create_read: "fault e (Call_Channel_findOne (p_name d)) = Some err \<longrightarrow>
      fst (createChannel e d s) = Inl (StoreError err)"
    by (simp add: createChannel_def Let_def)
  have create_save: "fault e (Call_Channel_findOne (p_name d)) = None \<longrightarrow>
      findOne_name (p_name d) (channel_store s) = None \<longrightarrow>
      fault e (Call_Channel_save (new_Channel (new_id e) (preProcessChannel None d))) = Some err \<longrightarrow>
      fst (createChannel e d s) = Inl (StoreError err)"
    by (simp add: createChannel_def Let_def)
  have delete_read: "fault e (Call_Channel_findOneAndRemove i) = Some err \<longrightarrow>
      fst (deleteChannel e i s) = Inl (StoreError err)"
    by (simp add: deleteChannel_def Let_def)
  have delete_cleanup: "fault e (Call_Channel_findOneAndRemove i) = None \<longrightarrow>
      findById i (channel_store s) = Some c \<longrightarrow> identityRef c \<noteq> [] \<longrightarrow>
      fault e (Call_identities_removeValuesFromField (ManyIds (identityRef c)) ''channels''
                 (name c)) = Some err \<longrightarrow>
      fst (deleteChannel e i s) =
        Inl (InternalError ''Could not delete the provided Channel object'')"
    by (simp add: deleteChannel_def identities_removeValuesFromField_def Let_def)
  have reads: "fault e (Call_Channel_findById i) = Some err \<longrightarrow>
      fst (updateChannel e i p s) = Inl (StoreError err) \<and>
      fst (retrieveIdentityListForChannel e fmt (Some i) s) = Inl (StoreError err) \<and>
      fst (deleteIdentityFromChannel e i j s) =
        Inl (BadRequestError ''Could not fetch requested Channel object'')"
    by (simp add: updateChannel_def retrieveIdentityListForChannel_def
        deleteIdentityFromChannel_def getChannel_eq)
  have update_save: "fault e (Call_Channel_findById i) = None \<Longrightarrow>
      findById i (channel_store s) = Some c \<Longrightarrow>
      fault e (Call_Channel_save (set_fields c (preProcessChannel (Some (toObject c)) p))) =
        Some err \<Longrightarrow>
      fst (updateChannel e i p s) = Inl (StoreError err)"
    by (simp add: updateChannel_def getChannel_eq Let_def)
  have update_propagate: "fault e (Call_Channel_findById i) = None \<Longrightarrow>
      findById i (channel_store s) = Some c \<Longrightarrow>
      fault e (Call_Channel_save (set_fields c (preProcessChannel (Some (toObject c)) p))) =
        None \<Longrightarrow>
      fault e (Call_identities_update (name c)
                 (name (set_fields c (preProcessChannel (Some (toObject c)) p)))) =
        Some err \<Longrightarrow>
      fst (updateChannel e i p s) = Inl (CollaboratorError err)"
    by (simp add: updateChannel_found)
  have retrieve_lookup: "fault e (Call_Channel_findById i) = None \<Longrightarrow>
      findById i (channel_store s) = Some c \<Longrightarrow> identityRef c \<noteq> [] \<Longrightarrow>
      fault e (Call_identities_findIdentitiesByFieldValue ''_id'' (identityRef c)) =
        Some err \<Longrightarrow>
      fst (retrieveIdentityListForChannel e fmt (Some i) s) = Inl (CollaboratorError err)"
    by (simp add: retrieveIdentityListForChannel_def getChannel_eq
        identities_findIdentitiesByFieldValue_def Let_def)
  have detach_get: "fault e (Call_Channel_findById i) = None \<Longrightarrow>
      findById i (channel_store s) = Some c \<Longrightarrow>
      fault e (Call_identities_get j) = Some err \<Longrightarrow>
      fst (deleteIdentityFromChannel e i j s) =
        Inl (InternalError ''Could not fetch requested Identity object'')"
    by (simp add: deleteIdentityFromChannel_def getChannel_eq identities_get_eq)
  have detach_pulls: "fault e (Call_Channel_findById i) = None \<Longrightarrow>
      findById i (channel_store s) = Some c \<Longrightarrow>
      fault e (Call_identities_get j) = None \<Longrightarrow>
      find (\<lambda>x. iid x = j) (identity_store s) = Some x \<Longrightarrow>
      name c \<in> set (channels x) \<Longrightarrow> j \<in> set (identityRef c) \<Longrightarrow>
        (fault e (Call_Channel_update (Some [i]) ''identityRef'' j) = Some err \<longrightarrow>
         fault e (Call_identities_removeValuesFromField (OneId j) ''channels'' (name c)) =
           None \<longrightarrow>
         fst (deleteIdentityFromChannel e i j s) =
           Inl (InternalError ''Could not delete data from Channel object''))
      \<and> (fault e (Call_Channel_update (Some [i]) ''identityRef'' j) = None \<longrightarrow>
         fault e (Call_identities_removeValuesFromField (OneId j) ''channels'' (name c)) =
           Some err \<longrightarrow>
         fst (deleteIdentityFromChannel e i j s) = Inl (CollaboratorError err))"
    by (simp add: detach_symmetric parallel_outcome_def)
  have pull: "fault e (Call_Channel_update (ids_filter a) field v) = Some err \<longrightarrow>
      fst (removeValuesFromField e a field v s) =
        Inl (InternalError ''Could not delete data from Channel object'')"
    by (cases a) (simp_all add: removeValuesFromField_def ids_filter_def Let_def)
  have found: "fault e (Call_Channel_findById i) = None \<longrightarrow>
      findById i (channel_store s) = Some c \<longrightarrow>
        (fault e (Call_Channel_save (set_fields c (preProcessChannel (Some (toObject c)) p))) =
           Some err \<longrightarrow>
         fst (updateChannel e i p s) = Inl (StoreError err))
      \<and> (fault e (Call_Channel_save (set_fields c (preProcessChannel (Some (toObject c)) p))) =
           None \<longrightarrow>
         fault e (Call_identities_update (name c)
                    (name (set_fields c (preProcessChannel (Some (toObject c)) p)))) =
           Some err \<longrightarrow>
         fst (updateChannel e i p s) = Inl (CollaboratorError err))
      \<and> (identityRef c \<noteq> [] \<longrightarrow>
         fault e (Call_identities_findIdentitiesByFieldValue ''_id'' (identityRef c)) =
           Some err \<longrightarrow>
         fst (retrieveIdentityListForChannel e fmt (Some i) s) = Inl (CollaboratorError err))
      \<and> (fault e (Call_identities_get j) = Some err \<longrightarrow>
         fst (deleteIdentityFromChannel e i j s) =
           Inl (InternalError ''Could not fetch requested Identity object''))
      \<and> (fault e (Call_identities_get j) = None \<longrightarrow>
         find (\<lambda>x. iid x = j) (identity_store s) = Some x \<longrightarrow>
         name c \<in> set (channels x) \<longrightarrow> j \<in> set (identityRef c) \<longrightarrow>
           (fault e (Call_Channel_update (Some [i]) ''identityRef'' j) = Some err \<longrightarrow>
            fault e (Call_identities_removeValuesFromField (OneId j) ''channels'' (name c)) =
              None \<longrightarrow>
            fst (deleteIdentityFromChannel e i j s) =
              Inl (InternalError ''Could not delete data from Channel object''))
         \<and> (fault e (Call_Channel_update (Some [i]) ''identityRef'' j) = None \<longrightarrow>
            fault e (Call_identities_removeValuesFromField (OneId j) ''channels'' (name c)) =
              Some err \<longrightarrow>
            fst (deleteIdentityFromChannel e i j s) = Inl (CollaboratorError err)))"
  proof (intro impI)
    assume h: "fault e (Call_Channel_findById i) = None" "findById i (channel_store s) = Some c"
    note a = update_save [OF h] and b = update_propagate [OF h] and c = retrieve_lookup [OF h]
      and d = detach_get [OF h] and f = detach_pulls [OF h]
    show "(fault e (Call_Channel_save (set_fields c (preProcessChannel (Some (toObject c)) p))) =
           Some err \<longrightarrow>
         fst (updateChannel e i p s) = Inl (StoreError err))
      \<and> (fault e (Call_Channel_save (set_fields c (preProcessChannel (Some (toObject c)) p))) =
           None \<longrightarrow>
         fault e (Call_identities_update (name c)
                    (name (set_fields c (preProcessChannel (Some (toObject c)) p)))) =
           Some err \<longrightarrow>
         fst (updateChannel e i p s) = Inl (CollaboratorError err))
      \<and> (identityRef c \<noteq> [] \<longrightarrow>
         fault e (Call_identities_findIdentitiesByFieldValue ''_id'' (identityRef c)) =
           Some err \<longrightarrow>
         fst (retrieveIdentityListForChannel e fmt (Some i) s) = Inl (CollaboratorError err))
      \<and> (fault e (Call_identities_get j) = Some err \<longrightarrow>
         fst (deleteIdentityFromChannel e i j s) =
           Inl (InternalError ''Could not fetch requested Identity object''))
      \<and> (fault e (Call_identities_get j) = None \<longrightarrow>
         find (\<lambda>x. iid x = j) (identity_store s) = Some x \<longrightarrow>
         name c \<in> set (channels x) \<longrightarrow> j \<in> set (identityRef c) \<longrightarrow>
           (fault e (Call_Channel_update (Some [i]) ''identityRef'' j) = Some err \<longrightarrow>
            fault e (Call_identities_removeValuesFromField (OneId j) ''channels'' (name c)) =
              None \<longrightarrow>
            fst (deleteIdentityFromChannel e i j s) =
              Inl (InternalError ''Could not delete data from Channel object''))
         \<and> (fault e (Call_Channel_update (Some [i]) ''identityRef'' j) = None \<longrightarrow>
            fault e (Call_identities_removeValuesFromField (OneId j) ''channels'' (name c)) =
              Some err \<longrightarrow>
            fst (deleteIdentityFromChannel e i j s) = Inl (CollaboratorError err)))"
    proof (intro conjI impI)
      show "fst (updateChannel e i p s) = Inl (StoreError err)"
        if "fault e (Call_Channel_save (set_fields c (preProcessChannel (Some (toObject c)) p))) =
              Some err"
        using that by (rule a)
      show "fst (updateChannel e i p s) = Inl (CollaboratorError err)"
        if "fault e (Call_Channel_save (set_fields c (preProcessChannel (Some (toObject c)) p))) =
              None"
          and "fault e (Call_identities_update (name c)
                    (name (set_fields c (preProcessChannel (Some (toObject c)) p)))) = Some err"
        using that by (rule b)
      show "fst (retrieveIdentityListForChannel e fmt (Some i) s) = Inl (CollaboratorError err)"
        if "identityRef c \<noteq> []"
          and "fault e (Call_identities_findIdentitiesByFieldValue ''_id'' (identityRef c)) =
                 Some err"
        using that by (rule c)
      show "fst (deleteIdentityFromChannel e i j s) =
           Inl (InternalError ''Could not fetch requested Identity object'')"
        if "fault e (Call_identities_get j) = Some err"
        using that by (rule d)
      show "fst (deleteIdentityFromChannel e i j s) =
              Inl (InternalError ''Could not delete data from Channel object'')"
        if "fault e (Call_identities_get j) = None"
          and "find (\<lambda>x. iid x = j) (identity_store s) = Some x"
          and "name c \<in> set (channels x)" and "j \<in> set (identityRef c)"
          and "fault e (Call_Channel_update (Some [i]) ''identityRef'' j) = Some err"
          and "fault e (Call_identities_removeValuesFromField (OneId j) ''channels'' (name c)) =
              None"
        using f [OF that(1-4)] that(5,6) by simp
      show "fst (deleteIdentityFromChannel e i j s) = Inl (CollaboratorError err)"
        if "fault e (Call_identities_get j) = None"
          and "find (\<lambda>x. iid x = j) (identity_store s) = Some x"
          and "name c \<in> set (channels x)" and "j \<in> set (identityRef c)"
          and "fault e (Call_Channel_update (Some [i]) ''identityRef'' j) = None"
          and "fault e (Call_identities_removeValuesFromField (OneId j) ''channels'' (name c)) =
              Some err"
        using f [OF that(1-4)] that(5,6) by simp
    qed
  qed
  show ?thesis
    by (intro conjI create_read create_save delete_read delete_cleanup reads found pull)
qed

theorem createChannel_raw_error_counterexample:
  "createChannel (failing (Call_Channel_findOne (Some ''c'')))
     \<lparr>p_name = Some ''c'', p_identityRef = None, p_extra = []\<rparr> ex_state =
     (Inl (StoreError ''E11000''), ex_state\<lparr>calls := [Call_Channel_findOne (Some ''c'')]\<rparr>)"
  by (simp add: createChannel_def Let_def issue_def failing_def ex_state_def)

theorem failed_call_surfacing_witness:
  "fst (createChannel (failing (Call_Channel_findOne (Some ''c'')))
          \<lparr>p_name = Some ''c'', p_identityRef = None, p_extra = []\<rparr> ex_state) =
     Inl (StoreError ''E11000'')
   \<and> fst (removeValuesFromField (failing (Call_Channel_update None ''identityRef'' 7))
            NoIds ''identityRef'' 7 ex_state) =
     Inl (InternalError ''Could not delete data from Channel object'')
   \<and> fst (deleteIdentityFromChannel (failing (Call_Channel_findById 1)) 1 7 ex_state) =
     Inl (BadRequestError ''Could not fetch requested Channel object'')
   \<and> fst (updateChannel (failing (Call_identities_update ''a'' ''z'')) 1
            \<lparr>p_name = Some ''z'', p_identityRef = None, p_extra = []\<rparr> ex_state) =
     Inl (CollaboratorError ''E11000'')"
proof -
  let ?a = "\<lparr>name = ''a'', identityRef = [7, 8], extra = [], cid = 1\<rparr>"
  let ?pc = "\<lparr>p_name = Some ''c'', p_identityRef = None, p_extra = []\<rparr>"
  let ?pz = "\<lparr>p_name = Some ''z'', p_identityRef = None, p_extra = []\<rparr>"
  let ?qz = "Call_identities_update ''a'' ''z''"
  have failing_at: "\<And>q. fault (failing q) q = Some ''E11000''"
    by (simp add: failing_def)
  have f1: "findById 1 (channel_store ex_state) = Some ?a"
    by (simp add: findById_def ex_state_def)
  have w1: "fst (createChannel (failing (Call_Channel_findOne (Some ''c''))) ?pc ex_state) =
      Inl (StoreError ''E11000'')"
    using failed_call_surfacing
      [where e = "failing (Call_Channel_findOne (Some ''c''))" and d = ?pc and s = ex_state
         and err = "''E11000''", THEN conjunct1]
    by (simp add: failing_def)
  have w2: "fst (removeValuesFromField (failing (Call_Channel_update None ''identityRef'' 7))
            NoIds ''identityRef'' 7 ex_state) =
      Inl (InternalError ''Could not delete data from Channel object'')"
    using failed_call_surfacing
      [where e = "failing (Call_Channel_update None ''identityRef'' 7)" and a = NoIds
         and field = "''identityRef''" and v = 7 and s = ex_state and err = "''E11000''",
       THEN conjunct2, THEN conjunct2, THEN conjunct2, THEN conjunct2, THEN conjunct2,
       THEN conjunct2]
    by (simp add: failing_def ids_filter_def)
  have w3: "fst (deleteIdentityFromChannel (failing (Call_Channel_findById 1)) 1 7 ex_state) =
      Inl (BadRequestError ''Could not fetch requested Channel object'')"
    using failed_call_surfacing
      [where e = "failing (Call_Channel_findById 1)" and i = 1 and j = 7 and s = ex_state
         and err = "''E11000''",
       THEN conjunct2, THEN conjunct2, THEN conjunct2, THEN conjunct2, THEN conjunct1]
      failing_at
    by blast
  have w4: "fst (updateChannel (failing ?qz) 1 ?pz ex_state) = Inl (CollaboratorError ''E11000'')"
    using failed_call_surfacing
      [where e = "failing ?qz" and i = 1 and p = ?pz and s = ex_state and c = ?a
         and err = "''E11000''",
       THEN conjunct2, THEN conjunct2, THEN conjunct2, THEN conjunct2, THEN conjunct2,
       THEN conjunct1] f1
    by (simp add: failing_def name_set_fields_preProcess set_fields_def preProcessChannel_def
        toObject_def extend_obj_def)
  from w1 w2 w3 w4 show ?thesis by blast
qed

section \<open>Successful operations keep the collections consistent\<close>

lemma bidirectional_iff:
  "bidirectional s \<longleftrightarrow>
     (\<forall>c\<in>set (channel_store s). \<forall>x\<in>set (identity_store s).
        (iid x \<in> set (identityRef c) \<longleftrightarrow> name c \<in> set (channels x)))"
  by (simp add: bidirectional_def pair_ok_def list_all_iff)

lemma names_resolve_iff:
  "names_resolve s \<longleftrightarrow>
     (\<forall>x\<in>set (identity_store s). set (channels x) \<subseteq> name ` set (channel_store s))"
  by (auto simp: names_resolve_def list_all_iff)

lemma distinct_map_eqD:
  "distinct (map f xs) \<Longrightarrow> a \<in> set xs \<Longrightarrow> b \<in> set xs \<Longrightarrow> f a = f b \<Longrightarrow> a = b"
  by (meson distinct_map inj_onD)

lemma replace_doc_distinct:
  "distinct (map cid cs) \<Longrightarrow> c \<in> set cs \<Longrightarrow> cid u = cid c \<Longrightarrow>
     replace_doc u cs = map (\<lambda>d. if d = c then u else d) cs"
proof (induction cs)
  case Nil
  then show ?case by simp
next
  case (Cons a cs)
  show ?case
  proof (cases "a = c")
    case True
    with Cons.prems have "c \<notin> set cs" by auto
    then have "map (\<lambda>d. if d = c then u else d) cs = cs"
      by (intro map_idI) auto
    with True Cons.prems show ?thesis by simp
  next
    case False
    with Cons.prems have "c \<in> set cs" "cid a \<noteq> cid c"
      by (auto simp: image_iff)
    with Cons False show ?thesis by simp
  qed
qed

lemma createChannel_InrD:
  assumes "createChannel e d s = (Inr ch, s')"
  shows "findOne_name (p_name d) (channel_store s) = None \<and>
         ch = new_Channel (new_id e) (preProcessChannel None d) \<and>
         channel_store s' = channel_store s @ [ch] \<and>
         identity_store s' = identity_store s"
  using assms
  by (auto simp: createChannel_def Let_def issue_def split: option.splits)

lemma createChannel_consistent:
  assumes con: "consistent s"
    and adm: "admissible e (CreateChannel d) s"
    and run: "createChannel e d s = (Inr ch, s')"
  shows "consistent s'"
proof -
  from createChannel_InrD [OF run]
  have pre: "findOne_name (p_name d) (channel_store s) = None"
    and ch: "ch = new_Channel (new_id e) (preProcessChannel None d)"
    and cs: "channel_store s' = channel_store s @ [ch]"
    and xs: "identity_store s' = identity_store s"
    by simp_all
  have ref: "identityRef ch = []"
    using adm by (auto simp: ch new_Channel_def preProcessChannel_def extend_obj_def)
  have cid: "cid ch = new_id e"
    by (simp add: ch new_Channel_def)
  have fresh_name: "name ch \<notin> set (map name (channel_store s))"
  proof (cases "p_name d")
    case None
    then have "name ch = ''''"
      by (simp add: ch new_Channel_def preProcessChannel_def extend_obj_def)
    with adm None show ?thesis by simp
  next
    case (Some v)
    then have "name ch = v"
      by (simp add: ch new_Channel_def preProcessChannel_def extend_obj_def)
    with pre Some show ?thesis
      by (auto simp: findOne_name_def find_None_iff)
  qed
  from con have bi: "bidirectional s" and dn: "distinct (map name (channel_store s))"
    and di: "distinct (map cid (channel_store s))" and nr: "names_resolve s"
    and dl: "list_all (\<lambda>x. distinct (channels x)) (identity_store s)"
    by (simp_all add: consistent_def)
  have unlisted: "name ch \<notin> set (channels x)" if "x \<in> set (identity_store s)" for x
    using nr that fresh_name by (auto simp: names_resolve_iff)
  have "bidirectional s'"
    using bi unlisted by (auto simp: bidirectional_iff cs xs ref)
  moreover have "distinct (map name (channel_store s'))"
    using dn fresh_name by (simp add: cs)
  moreover have "distinct (map cid (channel_store s'))"
    using di adm by (simp add: cs cid)
  moreover have "names_resolve s'"
    using nr by (auto simp: names_resolve_iff cs xs)
  moreover have "list_all (\<lambda>x. distinct (channels x)) (identity_store s')"
    using dl by (simp add: xs)
  ultimately show ?thesis
    by (simp add: consistent_def)
qed

lemma set_positional_subset: "set (set_positional a z xs) \<subseteq> insert z (set xs)"
  by (induction xs) auto

lemma set_set_positional:
  "a \<in> set xs \<Longrightarrow> distinct xs \<Longrightarrow> set (set_positional a z xs) = insert z (set xs - {a})"
  by (induction xs) (auto simp: set_positional_absent)

lemma distinct_set_positional:
  "distinct xs \<Longrightarrow> z \<notin> set xs \<or> z = a \<Longrightarrow> distinct (set_positional a z xs)"
proof (induction xs)
  case Nil
  then show ?case by simp
next
  case (Cons x xs)
  show ?case
  proof (cases "x = a")
    case True
    with Cons.prems show ?thesis by auto
  next
    case False
    have "x \<notin> set (set_positional a z xs)"
      using set_positional_subset [of a z xs] Cons.prems False by auto
    with Cons False show ?thesis by auto
  qed
qed

lemma distinct_map_replace:
  "distinct (map f cs) \<Longrightarrow> c \<in> set cs \<Longrightarrow> (\<forall>d\<in>set cs. d \<noteq> c \<longrightarrow> f d \<noteq> f u) \<Longrightarrow>
     distinct (map f (map (\<lambda>d. if d = c then u else d) cs))"
proof (induction cs)
  case Nil
  then show ?case by simp
next
  case (Cons a cs)
  show ?case
  proof (cases "a = c")
    case True
    with Cons.prems have notin: "c \<notin> set cs"
      by auto
    then have same: "map (\<lambda>d. if d = c then u else d) cs = cs"
      by (intro map_idI) auto
    from Cons.prems notin have "f u \<notin> f ` set cs"
      by auto
    with True Cons.prems same show ?thesis by simp
  next
    case False
    with Cons.prems have c: "c \<in> set cs" and fa: "f a \<noteq> f u" and fc: "f a \<notin> f ` set cs"
      by auto
    have nin: "f a \<notin> (\<lambda>x. f (if x = c then u else x)) ` set cs"
    proof
      assume "f a \<in> (\<lambda>x. f (if x = c then u else x)) ` set cs"
      then obtain d where "d \<in> set cs" "f a = f (if d = c then u else d)"
        by auto
      with fa fc show False
        by (cases "d = c") auto
    qed
    have "distinct (map f (map (\<lambda>d. if d = c then u else d) cs))"
      using Cons.IH Cons.prems c by simp
    with nin False show ?thesis by simp
  qed
qed

lemma distinct_map_remove1:
  assumes "distinct (map f xs)"
  shows "distinct (map f (remove1 x xs))"
proof -
  from assms have "distinct xs" and inj: "inj_on f (set xs)"
    by (simp_all add: distinct_map)
  then have "distinct (remove1 x xs)"
    by simp
  moreover have "inj_on f (set (remove1 x xs))"
    using inj by (rule inj_on_subset) (rule set_remove1_subset)
  ultimately show ?thesis
    by (simp add: distinct_map)
qed

lemma deleteChannel_InrD:
  assumes "deleteChannel e i s = (Inr r, s')"
  shows "\<exists>c. findById i (channel_store s) = Some c \<and>
           channel_store s' = remove1 c (channel_store s) \<and>
           identity_store s' =
             map (\<lambda>x. if iid x \<in> set (identityRef c)
                       then x\<lparr>channels := filter (\<lambda>m. m \<noteq> name c) (channels x)\<rparr> else x)
                 (identity_store s)"
proof (cases "fault e (Call_Channel_findOneAndRemove i)")
  case (Some err)
  with assms show ?thesis
    by (simp add: deleteChannel_def Let_def)
next
  case nf: None
  show ?thesis
  proof (cases "findById i (channel_store s)")
    case None
    with assms nf show ?thesis
      by (simp add: deleteChannel_def Let_def)
  next
    case (Some c)
    show ?thesis
    proof (cases "identityRef c = []")
      case True
      with assms nf Some show ?thesis
        by (auto simp: deleteChannel_def Let_def)
    next
      case False
      with assms nf Some show ?thesis
        by (auto simp: deleteChannel_def Let_def identities_removeValuesFromField_def
            matches_def ids_filter_def pull_identity_def issue_def split: option.splits)
    qed
  qed
qed

lemma deleteChannel_consistent:
  assumes con: "consistent s"
    and run: "deleteChannel e i s = (Inr r, s')"
  shows "consistent s'"
proof -
  from deleteChannel_InrD [OF run] obtain c
    where fc: "findById i (channel_store s) = Some c"
      and cs: "channel_store s' = remove1 c (channel_store s)"
      and xs: "identity_store s' =
             map (\<lambda>x. if iid x \<in> set (identityRef c)
                       then x\<lparr>channels := filter (\<lambda>m. m \<noteq> name c) (channels x)\<rparr> else x)
                 (identity_store s)"
    by blast
  from con have bi: "bidirectional s" and dn: "distinct (map name (channel_store s))"
    and di: "distinct (map cid (channel_store s))" and nr: "names_resolve s"
    and dl: "list_all (\<lambda>x. distinct (channels x)) (identity_store s)"
    by (simp_all add: consistent_def)
  have cin: "c \<in> set (channel_store s)"
    using findById_SomeD [OF fc] by simp
  have dcs: "distinct (channel_store s)"
    using dn by (simp add: distinct_map)
  have rest: "set (channel_store s') = set (channel_store s) - {c}"
    using dcs by (simp add: cs)
  have other: "name d \<noteq> name c" if "d \<in> set (channel_store s')" for d
    using that rest distinct_map_eqD [OF dn _ cin, of d] by auto
  have "bidirectional s'"
    unfolding bidirectional_iff
  proof (intro ballI)
    fix d x' assume d: "d \<in> set (channel_store s')" and x': "x' \<in> set (identity_store s')"
    from x' obtain x where x: "x \<in> set (identity_store s)"
      and x'_def: "x' = (if iid x \<in> set (identityRef c)
                         then x\<lparr>channels := filter (\<lambda>m. m \<noteq> name c) (channels x)\<rparr> else x)"
      by (auto simp: xs)
    from d rest have "d \<in> set (channel_store s)" by simp
    with bi x have "iid x \<in> set (identityRef d) \<longleftrightarrow> name d \<in> set (channels x)"
      by (simp add: bidirectional_iff)
    with other [OF d] show "iid x' \<in> set (identityRef d) \<longleftrightarrow> name d \<in> set (channels x')"
      by (simp add: x'_def)
  qed
  moreover have "distinct (map name (channel_store s'))"
    using dn by (simp add: cs distinct_map_remove1)
  moreover have "distinct (map cid (channel_store s'))"
    using di by (simp add: cs distinct_map_remove1)
  moreover have "names_resolve s'"
    unfolding names_resolve_iff
  proof (intro ballI subsetI)
    fix x' m assume x': "x' \<in> set (identity_store s')" and m: "m \<in> set (channels x')"
    from x' obtain x where x: "x \<in> set (identity_store s)"
      and x'_def: "x' = (if iid x \<in> set (identityRef c)
                         then x\<lparr>channels := filter (\<lambda>m. m \<noteq> name c) (channels x)\<rparr> else x)"
      by (auto simp: xs)
    from bi cin x have link: "iid x \<in> set (identityRef c) \<longleftrightarrow> name c \<in> set (channels x)"
      by (simp add: bidirectional_iff)
    from m link have "m \<in> set (channels x)" and "m \<noteq> name c"
      by (auto simp: x'_def split: if_splits)
    moreover from nr x \<open>m \<in> set (channels x)\<close> obtain d
      where "d \<in> set (channel_store s)" "name d = m"
      by (auto simp: names_resolve_iff)
    ultimately show "m \<in> name ` set (channel_store s')"
      using rest by auto
  qed
  moreover have "list_all (\<lambda>x. distinct (channels x)) (identity_store s')"
    using dl by (auto simp: xs list_all_iff)
  ultimately show ?thesis
    by (simp add: consistent_def)
qed

lemma updateChannel_consistent:
  assumes con: "consistent s"
    and adm: "admissible e (UpdateChannel i p) s"
    and run: "updateChannel e i p s = (Inr r, s')"
  shows "consistent s'"
proof -
  from updateChannel_InrD [OF run] obtain c
    where nf: "fault e (Call_Channel_findById i) = None"
      and fc: "findById i (channel_store s) = Some c"
      and nsave: "fault e (Call_Channel_save
                    (set_fields c (preProcessChannel (Some (toObject c)) p))) = None"
      and nupd: "fault e (Call_identities_update (name c)
                    (name (set_fields c (preProcessChannel (Some (toObject c)) p)))) = None"
    by blast
  define u where "u = set_fields c (preProcessChannel (Some (toObject c)) p)"
  define a where "a = name c"
  define z where "z = name u"
  define g :: "identity \<Rightarrow> identity" where "g = (\<lambda>x. if a \<in> set (channels x)
                           then x\<lparr>channels := set_positional a z (channels x)\<rparr> else x)"
  from updateChannel_found [OF nf fc u_def nsave [folded u_def]] run nupd [folded u_def]
  have cs0: "channel_store s' = replace_doc u (channel_store s)"
    and xs: "identity_store s' = map g (identity_store s)"
    by (auto simp: g_def a_def z_def)
  from con have bi: "bidirectional s" and dn: "distinct (map name (channel_store s))"
    and di: "distinct (map cid (channel_store s))" and nr: "names_resolve s"
    and dl: "list_all (\<lambda>x. distinct (channels x)) (identity_store s)"
    by (simp_all add: consistent_def)
  have cin: "c \<in> set (channel_store s)" and ci: "cid c = i"
    using findById_SomeD [OF fc] by simp_all
  have cu: "cid u = cid c"
    by (simp add: u_def)
  have ru: "identityRef u = identityRef c"
    using adm by (simp add: u_def identityRef_set_fields_preProcess)
  have cs: "channel_store s' = map (\<lambda>d. if d = c then u else d) (channel_store s)"
    using replace_doc_distinct [OF di cin cu] by (simp add: cs0)
  have other_a: "name d \<noteq> a" if "d \<in> set (channel_store s)" "d \<noteq> c" for d
    using that distinct_map_eqD [OF dn that(1) cin] by (auto simp: a_def)
  have other_z: "name d \<noteq> z" if "d \<in> set (channel_store s)" "d \<noteq> c" for d
  proof (cases "p_name p")
    case None
    then have "z = a"
      by (simp add: z_def a_def u_def name_set_fields_preProcess)
    with other_a [OF that] show ?thesis by simp
  next
    case (Some v)
    then have zv: "z = v"
      by (simp add: z_def u_def name_set_fields_preProcess)
    show ?thesis
    proof
      assume "name d = z"
      with adm Some zv that(1) have "cid d = i"
        by (simp add: list_all_iff)
      with ci have "cid d = cid c" by simp
      from distinct_map_eqD [OF di that(1) cin this] that(2) show False by simp
    qed
  qed
  have z_new: "z \<notin> set (channels x)" if "x \<in> set (identity_store s)" "z \<noteq> a" for x
  proof
    assume "z \<in> set (channels x)"
    with nr that(1) obtain d where d: "d \<in> set (channel_store s)" "name d = z"
      by (auto simp: names_resolve_iff)
    with other_z have "d = c" by blast
    with d that(2) show False by (simp add: a_def)
  qed
  have dx: "distinct (channels x)" if "x \<in> set (identity_store s)" for x
    using dl that by (simp add: list_all_iff)
  have set_g: "set (channels (g x)) =
      (if a \<in> set (channels x) then insert z (set (channels x) - {a}) else set (channels x))"
    if "x \<in> set (identity_store s)" for x
    using dx [OF that] by (simp add: g_def set_set_positional)
  have iid_g: "iid (g x) = iid x" for x
    by (simp add: g_def)
  have "bidirectional s'"
    unfolding bidirectional_iff
  proof (intro ballI)
    fix d' x' assume d': "d' \<in> set (channel_store s')" and x': "x' \<in> set (identity_store s')"
    from x' obtain x where x: "x \<in> set (identity_store s)" and x'_def: "x' = g x"
      by (auto simp: xs)
    from d' obtain d where d: "d \<in> set (channel_store s)"
      and d'_def: "d' = (if d = c then u else d)"
      by (auto simp: cs)
    from bi d x have link: "iid x \<in> set (identityRef d) \<longleftrightarrow> name d \<in> set (channels x)"
      by (simp add: bidirectional_iff)
    show "iid x' \<in> set (identityRef d') \<longleftrightarrow> name d' \<in> set (channels x')"
    proof (cases "d = c")
      case True
      with link have "iid x \<in> set (identityRef c) \<longleftrightarrow> a \<in> set (channels x)"
        by (simp add: a_def)
      moreover have "z \<in> set (channels (g x)) \<longleftrightarrow> a \<in> set (channels x)"
        using z_new [OF x] by (auto simp: set_g [OF x])
      ultimately show ?thesis
        using True by (simp add: d'_def x'_def iid_g ru z_def)
    next
      case False
      from other_a [OF d False] other_z [OF d False]
      have "name d \<in> set (channels (g x)) \<longleftrightarrow> name d \<in> set (channels x)"
        by (auto simp: set_g [OF x])
      with link False show ?thesis
        by (simp add: d'_def x'_def iid_g)
    qed
  qed
  moreover have "distinct (map name (channel_store s'))"
    unfolding cs using dn cin
  proof (rule distinct_map_replace)
    show "\<forall>d\<in>set (channel_store s). d \<noteq> c \<longrightarrow> name d \<noteq> name u"
      using other_z by (simp add: z_def)
  qed
  moreover have "distinct (map cid (channel_store s'))"
    unfolding cs using di cin
  proof (rule distinct_map_replace)
    show "\<forall>d\<in>set (channel_store s). d \<noteq> c \<longrightarrow> cid d \<noteq> cid u"
      using distinct_map_eqD [OF di _ cin] by (auto simp: cu)
  qed
  moreover have "names_resolve s'"
    unfolding names_resolve_iff
  proof (intro ballI subsetI)
    fix x' m assume x': "x' \<in> set (identity_store s')" and m: "m \<in> set (channels x')"
    from x' obtain x where x: "x \<in> set (identity_store s)" and x'_def: "x' = g x"
      by (auto simp: xs)
    have uin: "u \<in> set (channel_store s')"
      using cin by (auto simp: cs)
    show "m \<in> name ` set (channel_store s')"
    proof (cases "m = z")
      case True
      with uin show ?thesis by (auto simp: z_def)
    next
      case False
      with m have mx: "m \<in> set (channels x)"
        by (auto simp: x'_def set_g [OF x] split: if_splits)
      with nr x obtain d where d: "d \<in> set (channel_store s)" "name d = m"
        by (auto simp: names_resolve_iff)
      show ?thesis
      proof (cases "d = c")
        case True
        with d have "m = a" by (simp add: a_def)
        with m False have "a \<notin> set (channels x)"
          by (auto simp: x'_def set_g [OF x] split: if_splits)
        with mx \<open>m = a\<close> show ?thesis by simp
      next
        case False
        with d have "d \<in> set (channel_store s')"
          by (auto simp: cs)
        with d(2) show ?thesis by auto
      qed
    qed
  qed
  moreover have "list_all (\<lambda>x. distinct (channels x)) (identity_store s')"
  proof -
    have "distinct (channels (g x))" if "x \<in> set (identity_store s)" for x
    proof (cases "a \<in> set (channels x)")
      case True
      have "z \<notin> set (channels x) \<or> z = a"
        using z_new [OF that] by blast
      with dx [OF that] True show ?thesis
        by (simp add: g_def distinct_set_positional)
    next
      case False
      with dx [OF that] show ?thesis by (simp add: g_def)
    qed
    then show ?thesis
      by (simp add: xs list_all_iff)
  qed
  ultimately show ?thesis
    by (simp add: consistent_def)
qed

lemma deleteIdentityFromChannel_InrD:
  assumes run: "deleteIdentityFromChannel e i j s = (Inr r, s')"
  shows "\<exists>c x. findById i (channel_store s) = Some c \<and>
           find (\<lambda>x. iid x = j) (identity_store s) = Some x \<and>
           name c \<in> set (channels x) \<and> j \<in> set (identityRef c) \<and>
           channel_store s' =
             map (\<lambda>d. if cid d = i
                       then d\<lparr>identityRef := filter (\<lambda>y. y \<noteq> j) (identityRef d)\<rparr> else d)
                 (channel_store s) \<and>
           identity_store s' =
             map (\<lambda>y. if iid y = j
                       then y\<lparr>channels := filter (\<lambda>m. m \<noteq> name c) (channels y)\<rparr> else y)
                 (identity_store s)"
proof -
  have nf: "fault e (Call_Channel_findById i) = None"
    using run by (cases "fault e (Call_Channel_findById i)")
      (simp_all add: deleteIdentityFromChannel_def getChannel_eq)
  obtain c where fc: "findById i (channel_store s) = Some c"
    using run nf by (cases "findById i (channel_store s)")
      (simp_all add: deleteIdentityFromChannel_def getChannel_eq)
  have ng: "fault e (Call_identities_get j) = None"
    using run nf fc by (cases "fault e (Call_identities_get j)")
      (simp_all add: deleteIdentityFromChannel_def getChannel_eq identities_get_eq)
  obtain x where fx: "find (\<lambda>x. iid x = j) (identity_store s) = Some x"
    using run nf fc ng by (cases "find (\<lambda>x. iid x = j) (identity_store s)")
      (simp_all add: deleteIdentityFromChannel_def getChannel_eq identities_get_eq)
  have ix: "iid x = j"
    using find_iid_SomeD [OF fx] by simp
  have sym: "name c \<in> set (channels x)" "j \<in> set (identityRef c)"
    using detach_conflict [OF nf fc ng fx] run ix by auto
  note eq = detach_symmetric [OF nf fc ng fx sym]
  have "fst (deleteIdentityFromChannel e i j s) = Inr r"
    using run by simp
  then have po: "parallel_outcome (channel_pull_first e)
        (case fault e (Call_Channel_update (Some [i]) ''identityRef'' j) of
           Some err \<Rightarrow> Inl (InternalError ''Could not delete data from Channel object'')
         | None \<Rightarrow>
             Inr \<lparr>n = length (filter (\<lambda>c. cid c = i) (channel_store s)),
                  nModified = length (filter (\<lambda>c. pull_channel ''identityRef'' j c \<noteq> c)
                                        (filter (\<lambda>c. cid c = i) (channel_store s)))\<rparr>)
        (case fault e (Call_identities_removeValuesFromField (OneId j) ''channels'' (name c)) of
           Some err \<Rightarrow> Inl err
         | None \<Rightarrow> Inr ()) = Inr r"
    unfolding eq by simp
  have n1: "fault e (Call_Channel_update (Some [i]) ''identityRef'' j) = None"
  proof (rule ccontr)
    assume "fault e (Call_Channel_update (Some [i]) ''identityRef'' j) \<noteq> None"
    then obtain err where "fault e (Call_Channel_update (Some [i]) ''identityRef'' j) = Some err"
      by blast
    with po show False
      by (simp add: parallel_outcome_def split: sum.splits if_splits)
  qed
  have n2: "fault e (Call_identities_removeValuesFromField (OneId j) ''channels'' (name c)) =
      None"
  proof (rule ccontr)
    assume "fault e (Call_identities_removeValuesFromField (OneId j) ''channels'' (name c)) \<noteq>
      None"
    then obtain err
      where "fault e (Call_identities_removeValuesFromField (OneId j) ''channels'' (name c)) =
        Some err"
      by blast
    with po n1 show False
      by (simp add: parallel_outcome_def)
  qed
  have "snd (deleteIdentityFromChannel e i j s) = s'"
    using run by simp
  then have "channel_store s' =
          map (\<lambda>d. if cid d = i
                    then d\<lparr>identityRef := filter (\<lambda>y. y \<noteq> j) (identityRef d)\<rparr> else d)
              (channel_store s)"
    and "identity_store s' =
          map (\<lambda>y. if iid y = j
                    then y\<lparr>channels := filter (\<lambda>m. m \<noteq> name c) (channels y)\<rparr> else y)
              (identity_store s)"
    unfolding eq using n1 n2 by (auto simp: pull_channel_def pull_identity_def)
  with fc fx sym show ?thesis by blast
qed

lemma deleteIdentityFromChannel_consistent:
  assumes con: "consistent s"
    and run: "deleteIdentityFromChannel e i j s = (Inr r, s')"
  shows "consistent s'"
proof -
  define pc :: "channel \<Rightarrow> channel"
    where "pc = (\<lambda>d. if cid d = i
                     then d\<lparr>identityRef := filter (\<lambda>y. y \<noteq> j) (identityRef d)\<rparr> else d)"
  from deleteIdentityFromChannel_InrD [OF run] obtain c x0
    where fc: "findById i (channel_store s) = Some c"
      and cs: "channel_store s' = map pc (channel_store s)"
      and xs: "identity_store s' =
             map (\<lambda>y. if iid y = j
                       then y\<lparr>channels := filter (\<lambda>m. m \<noteq> name c) (channels y)\<rparr> else y)
                 (identity_store s)"
    unfolding pc_def by blast
  from con have bi: "bidirectional s" and dn: "distinct (map name (channel_store s))"
    and di: "distinct (map cid (channel_store s))" and nr: "names_resolve s"
    and dl: "list_all (\<lambda>x. distinct (channels x)) (identity_store s)"
    by (simp_all add: consistent_def)
  have cin: "c \<in> set (channel_store s)" and ci: "cid c = i"
    using findById_SomeD [OF fc] by simp_all
  have names: "map name (channel_store s') = map name (channel_store s)"
    and cids: "map cid (channel_store s') = map cid (channel_store s)"
    by (simp_all add: cs pc_def)
  have "bidirectional s'"
    unfolding bidirectional_iff
  proof (intro ballI)
    fix d' x' assume d': "d' \<in> set (channel_store s')" and x': "x' \<in> set (identity_store s')"
    from x' obtain x where x: "x \<in> set (identity_store s)"
      and x'_def: "x' = (if iid x = j
                         then x\<lparr>channels := filter (\<lambda>m. m \<noteq> name c) (channels x)\<rparr> else x)"
      by (auto simp: xs)
    from d' obtain d where d: "d \<in> set (channel_store s)" and d'_def: "d' = pc d"
      by (auto simp: cs)
    from bi d x have link: "iid x \<in> set (identityRef d) \<longleftrightarrow> name d \<in> set (channels x)"
      by (simp add: bidirectional_iff)
    show "iid x' \<in> set (identityRef d') \<longleftrightarrow> name d' \<in> set (channels x')"
    proof (cases "d = c")
      case True
      with link ci show ?thesis
        by (auto simp: d'_def x'_def pc_def)
    next
      case False
      with distinct_map_eqD [OF di d cin] ci have "cid d \<noteq> i"
        by auto
      moreover from False distinct_map_eqD [OF dn d cin] have "name d \<noteq> name c"
        by auto
      ultimately show ?thesis
        using link by (auto simp: d'_def x'_def pc_def)
    qed
  qed
  moreover have "distinct (map name (channel_store s'))"
    using dn by (simp only: names)
  moreover have "distinct (map cid (channel_store s'))"
    using di by (simp only: cids)
  moreover have "names_resolve s'"
  proof -
    have "set (map name (channel_store s')) = set (map name (channel_store s))"
      by (simp only: names)
    then have "name ` set (channel_store s') = name ` set (channel_store s)"
      by simp
    moreover have "set (channels x') \<subseteq> name ` set (channel_store s)"
      if "x' \<in> set (identity_store s')" for x'
    proof -
      from that obtain x where x: "x \<in> set (identity_store s)"
        and sub: "set (channels x') \<subseteq> set (channels x)"
        by (auto simp: xs)
      from nr x have "set (channels x) \<subseteq> name ` set (channel_store s)"
        by (simp add: names_resolve_iff)
      with sub show ?thesis by blast
    qed
    ultimately show ?thesis
      by (simp add: names_resolve_iff)
  qed
  moreover have "list_all (\<lambda>x. distinct (channels x)) (identity_store s')"
    using dl by (auto simp: xs list_all_iff)
  ultimately show ?thesis
    by (simp add: consistent_def)
qed

lemma run_op_consistent:
  assumes con: "consistent s" and adm: "admissible e a s" and step: "run_op e a s = (True, s')"
  shows "consistent s'"
proof (cases a)
  case (CreateChannel d)
  with step obtain ch where run: "createChannel e d s = (Inr ch, s')"
    by (auto simp: succeeded_def split: prod.splits sum.splits)
  from adm CreateChannel have "admissible e (CreateChannel d) s"
    by simp
  from createChannel_consistent [OF con this run] show ?thesis .
next
  case (UpdateChannel i p)
  with step obtain r where run: "updateChannel e i p s = (Inr r, s')"
    by (auto simp: succeeded_def split: prod.splits sum.splits)
  from adm UpdateChannel have "admissible e (UpdateChannel i p) s"
    by simp
  from updateChannel_consistent [OF con this run] show ?thesis .
next
  case (DeleteChannel i)
  with step obtain r where run: "deleteChannel e i s = (Inr r, s')"
    by (auto simp: succeeded_def split: prod.splits sum.splits)
  from deleteChannel_consistent [OF con run] show ?thesis .
next
  case (DeleteIdentityFromChannel i j)
  with step obtain r where run: "deleteIdentityFromChannel e i j s = (Inr r, s')"
    by (auto simp: succeeded_def split: prod.splits sum.splits)
  from deleteIdentityFromChannel_consistent [OF con run] show ?thesis .
qed

text \<open>
  C1 (as the code has it). Start from collections in which the bidirectional invariant
  holds for every pair, Channel names and ids are unique, every name an Identity lists
  is the name of a stored Channel and no Identity lists a name twice. Run any sequence
  of the four operations in which every operation succeeds, no create supplies Identity
  references or reuses a document id or the empty name, and no update supplies
  \<^verbatim>\<open>identityRef\<close> or renames onto the name of another Channel. Then after each
  operation the collections are consistent again; in particular the bidirectional
  invariant holds for every Channel and Identity, touched or not.
\<close>

theorem successful_operations_keep_invariant:
  "consistent s \<Longrightarrow> admissible_run ops s \<Longrightarrow> run_ops ops s = Some ss \<Longrightarrow>
     list_all (\<lambda>s'. bidirectional s' \<and> consistent s') ss \<and> length ss = length ops"
proof (induction ops arbitrary: s ss)
  case Nil
  then show ?case by simp
next
  case (Cons ea ops)
  obtain e a where ea: "ea = (e, a)"
    by (cases ea)
  from Cons.prems(3) ea obtain s' rest
    where step: "run_op e a s = (True, s')"
      and rest: "run_ops ops s' = Some rest" and ss: "ss = s' # rest"
    by (auto split: prod.splits bool.splits)
  from Cons.prems(2) ea step have adm: "admissible e a s" and adms: "admissible_run ops s'"
    by simp_all
  have con: "consistent s'"
    using run_op_consistent [OF Cons.prems(1) adm step] .
  from Cons.IH [OF con adms rest] con show ?case
    by (simp add: ss consistent_def)
qed

theorem successful_operations_keep_invariant_witness:
  "consistent ex_state \<and> admissible_run ex_ops ex_state
   \<and> map_option (list_all bidirectional) (run_ops ex_ops ex_state) = Some True
   \<and> map_option length (run_ops ex_ops ex_state) = Some 4"
proof -
  have con: "consistent ex_state"
    by (simp add: consistent_def bidirectional_def pair_ok_def names_resolve_def ex_state_def)
  have ran: "run_ops ex_ops ex_state \<noteq> None"
    by (simp add: ex_ops_def ex_state_def ok_env_def succeeded_def
        createChannel_def updateChannel_def deleteChannel_def deleteIdentityFromChannel_def
        getChannel_def identities_get_def identities_update_def
        identities_removeValuesFromField_def removeValuesFromField_def parallel_outcome_def
        findById_def findOne_name_def new_Channel_def toObject_def set_fields_def
        preProcessChannel_def extend_obj_def pull_channel_def pull_identity_def matches_def
        ids_filter_def issue_def Let_def)
  then obtain ss where run: "run_ops ex_ops ex_state = Some ss"
    by blast
  have adm: "admissible_run ex_ops ex_state"
    by (simp add: ex_ops_def ex_state_def ok_env_def succeeded_def
        createChannel_def updateChannel_def deleteChannel_def deleteIdentityFromChannel_def
        getChannel_def identities_get_def identities_update_def
        identities_removeValuesFromField_def removeValuesFromField_def parallel_outcome_def
        findById_def findOne_name_def new_Channel_def toObject_def set_fields_def
        preProcessChannel_def extend_obj_def pull_channel_def pull_identity_def matches_def
        ids_filter_def issue_def Let_def)
  from successful_operations_keep_invariant [OF con adm run]
  have "list_all bidirectional ss" and "length ss = 4"
    by (simp_all add: list_all_iff ex_ops_def)
  with con adm run show ?thesis by simp
qed

theorem createChannel_with_identityRef_counterexample:
  "bidirectional ex_state
   \<and> run_ops [(ok_env, CreateChannel \<lparr>p_name = Some ''c'', p_identityRef = Some [7],
                                       p_extra = []\<rparr>)] ex_state =
       Some [\<lparr>channel_store =
                [\<lparr>name = ''a'', identityRef = [7, 8], extra = [], cid = 1\<rparr>,
                 \<lparr>name = ''b'', identityRef = [7], extra = [], cid = 2\<rparr>,
                 \<lparr>name = ''e'', identityRef = [], extra = [], cid = 4\<rparr>,
                 \<lparr>name = ''c'', identityRef = [7], extra = [], cid = 3\<rparr>],
              identity_store =
                [\<lparr>iid = 7, channels = [''a'', ''b'']\<rparr>, \<lparr>iid = 8, channels = [''a'']\<rparr>],
              calls =
                [Call_Channel_findOne (Some ''c''),
                 Call_Channel_save \<lparr>name = ''c'', identityRef = [7], extra = [], cid = 3\<rparr>]\<rparr>]
   \<and> \<not> pair_ok \<lparr>name = ''c'', identityRef = [7], extra = [], cid = 3\<rparr>
              \<lparr>iid = 7, channels = [''a'', ''b'']\<rparr>"
  by (simp add: bidirectional_def pair_ok_def ex_state_def ok_env_def succeeded_def
      createChannel_def findOne_name_def new_Channel_def preProcessChannel_def extend_obj_def
      issue_def Let_def)

text \<open>
  Each condition on the operations is needed: an update that supplies \<^verbatim>\<open>identityRef\<close>,
  and a rename onto the name of another Channel, succeed on the consistent store above
  and leave it without the invariant.
\<close>

lemma conditions_on_operations_needed:
  "consistent ex_state
   \<and> fst (updateChannel ok_env 4 \<lparr>p_name = None, p_identityRef = Some [7], p_extra = []\<rparr>
            ex_state) = Inr ()
   \<and> \<not> bidirectional
         (snd (updateChannel ok_env 4 \<lparr>p_name = None, p_identityRef = Some [7], p_extra = []\<rparr>
                 ex_state))
   \<and> fst (updateChannel ok_env 2 \<lparr>p_name = Some ''a'', p_identityRef = None, p_extra = []\<rparr>
            ex_state) = Inr ()
   \<and> \<not> bidirectional
         (snd (updateChannel ok_env 2 \<lparr>p_name = Some ''a'', p_identityRef = None, p_extra = []\<rparr>
                 ex_state))"
  by (simp add: consistent_def bidirectional_def pair_ok_def names_resolve_def
      updateChannel_def getChannel_def identities_update_def findById_def toObject_def
      set_fields_def preProcessChannel_def extend_obj_def issue_def Let_def
      ex_state_def ok_env_def)

text \<open>
  So is each condition on the starting state. With two Channels of one name, a delete
  succeeds and breaks the invariant for the other Channel; with a name listed by an
  Identity and borne by no Channel, a create of that name does; with two documents of one
  id, a detach does. Each of the three starting states satisfies the bidirectional
  invariant itself.
\<close>

lemma conditions_on_start_needed:
  "bidirectional
     \<lparr>channel_store = [\<lparr>name = ''a'', identityRef = [7], extra = [], cid = 1\<rparr>,
                       \<lparr>name = ''a'', identityRef = [7], extra = [], cid = 2\<rparr>],
      identity_store = [\<lparr>iid = 7, channels = [''a'']\<rparr>], calls = []\<rparr>
   \<and> run_op ok_env (DeleteChannel 1)
     \<lparr>channel_store = [\<lparr>name = ''a'', identityRef = [7], extra = [], cid = 1\<rparr>,
                       \<lparr>name = ''a'', identityRef = [7], extra = [], cid = 2\<rparr>],
      identity_store = [\<lparr>iid = 7, channels = [''a'']\<rparr>], calls = []\<rparr> =
     (True,
      \<lparr>channel_store = [\<lparr>name = ''a'', identityRef = [7], extra = [], cid = 2\<rparr>],
       identity_store = [\<lparr>iid = 7, channels = []\<rparr>],
       calls = [Call_Channel_findOneAndRemove 1,
                Call_identities_removeValuesFromField (ManyIds [7]) ''channels'' ''a'']\<rparr>)
   \<and> \<not> pair_ok \<lparr>name = ''a'', identityRef = [7], extra = [], cid = 2\<rparr>
              \<lparr>iid = 7, channels = []\<rparr>
   \<and> bidirectional
     \<lparr>channel_store = [], identity_store = [\<lparr>iid = 7, channels = [''c'']\<rparr>], calls = []\<rparr>
   \<and> run_op ok_env (CreateChannel \<lparr>p_name = Some ''c'', p_identityRef = None, p_extra = []\<rparr>)
     \<lparr>channel_store = [], identity_store = [\<lparr>iid = 7, channels = [''c'']\<rparr>], calls = []\<rparr> =
     (True,
      \<lparr>channel_store = [\<lparr>name = ''c'', identityRef = [], extra = [], cid = 3\<rparr>],
       identity_store = [\<lparr>iid = 7, channels = [''c'']\<rparr>],
       calls = [Call_Channel_findOne (Some ''c''),
                Call_Channel_save \<lparr>name = ''c'', identityRef = [], extra = [], cid = 3\<rparr>]\<rparr>)
   \<and> \<not> pair_ok \<lparr>name = ''c'', identityRef = [], extra = [], cid = 3\<rparr>
              \<lparr>iid = 7, channels = [''c'']\<rparr>
   \<and> bidirectional
     \<lparr>channel_store = [\<lparr>name = ''a'', identityRef = [7], extra = [], cid = 1\<rparr>,
                       \<lparr>name = ''b'', identityRef = [7], extra = [], cid = 1\<rparr>],
      identity_store = [\<lparr>iid = 7, channels = [''a'', ''b'']\<rparr>], calls = []\<rparr>
   \<and> run_op ok_env (DeleteIdentityFromChannel 1 7)
     \<lparr>channel_store = [\<lparr>name = ''a'', identityRef = [7], extra = [], cid = 1\<rparr>,
                       \<lparr>name = ''b'', identityRef = [7], extra = [], cid = 1\<rparr>],
      identity_store = [\<lparr>iid = 7, channels = [''a'', ''b'']\<rparr>], calls = []\<rparr> =
     (True,
      \<lparr>channel_store = [\<lparr>name = ''a'', identityRef = [], extra = [], cid = 1\<rparr>,
                        \<lparr>name = ''b'', identityRef = [], extra = [], cid = 1\<rparr>],
       identity_store = [\<lparr>iid = 7, channels = [''b'']\<rparr>],
       calls = [Call_Channel_findById 1, Call_identities_get 7,
                Call_Channel_update (Some [1]) ''identityRef'' 7,
                Call_identities_removeValuesFromField (OneId 7) ''channels'' ''a'']\<rparr>)
   \<and> \<not> pair_ok \<lparr>name = ''b'', identityRef = [], extra = [], cid = 1\<rparr>
              \<lparr>iid = 7, channels = [''b'']\<rparr>"
  by (simp add: bidirectional_def pair_ok_def succeeded_def ok_env_def
      createChannel_def deleteChannel_def deleteIdentityFromChannel_def
      getChannel_def identities_get_def identities_removeValuesFromField_def
      removeValuesFromField_def parallel_outcome_def findById_def findOne_name_def
      new_Channel_def preProcessChannel_def extend_obj_def pull_channel_def pull_identity_def
      matches_def ids_filter_def issue_def Let_def)

end
